(* ===== verification/JS_Prelude.thy ===== *)
theory JS_Prelude
  imports Complex_Main "HOL-Library.Sublist" "HOL-Library.Multiset"
begin

text \<open>
  The ECMAScript built-ins that the community page calls, modelled once and shared by every
  component: \<open>String.prototype.toLowerCase\<close>, \<open>trim\<close> and \<open>includes\<close>,
  \<open>Array.prototype.sort\<close> with a comparator (a stable sort since ES2019),
  \<open>new Set(xs)\<close> read back as an array, division of numbers (with \<open>NaN\<close> and the
  infinities), and \<open>new Date('YYYY-MM-DD')\<close> read with \<open>getTime()\<close>.
  Each model follows the ECMAScript algorithm on the ASCII subset of strings (HOL's
  \<open>char\<close> is a byte): the Unicode case mappings and the non-ASCII white space
  of \<open>trim\<close> are not modelled.
  The theory also holds the generic lemmas the component theories share: the equivalence of
  each built-in with a library reference definition (\<open>includes\<close> with
  \<open>Sublist.sublist\<close>, \<open>sort\<close> with \<open>sort_key\<close>), collected in
  \<open>js_simps\<close>.
\<close>

named_theorems js_simps "evaluation and characterisation rules of the built-in models"

type_synonym timestamp = int \<comment> \<open>milliseconds since the epoch, as \<open>Date.getTime()\<close>\<close>

section \<open>Strings\<close>

definition js_lower_char :: "char \<Rightarrow> char" where
  "js_lower_char c =
     (if (65::nat) \<le> of_char c \<and> of_char c \<le> (90::nat) then char_of (of_char c + (32::nat)) else c)"

definition js_toLowerCase :: "string \<Rightarrow> string" where
  "js_toLowerCase s = map js_lower_char s"

definition js_is_ws :: "char \<Rightarrow> bool" where
  \<comment> \<open>TAB, LF, VT, FF, CR and SPACE: the ASCII part of WhiteSpace and LineTerminator\<close>
  "js_is_ws c \<longleftrightarrow> of_char c \<in> {9, 10, 11, 12, 13, 32::nat}"

definition js_trim :: "string \<Rightarrow> string" where
  "js_trim s = rev (dropWhile js_is_ws (rev (dropWhile js_is_ws s)))"

text \<open>
  \<open>StringIndexOf(S, searchValue, fromIndex)\<close> of ECMAScript: the least position
  \<open>k \<ge> fromIndex\<close> at which \<open>searchValue\<close> occurs, or \<open>-1\<close>. The loop runs over
  the positions; what shrinks is the number of positions left.
\<close>

function js_indexOf_from :: "string \<Rightarrow> string \<Rightarrow> nat \<Rightarrow> int" where
  "js_indexOf_from s t k =
     (if length s < k + length t then -1
      else if take (length t) (drop k s) = t then int k
      else js_indexOf_from s t (Suc k))"
  by pat_completeness auto
termination
  by (relation "measure (\<lambda>(s, t, k). Suc (length s) - k)") auto

declare js_indexOf_from.simps [simp del]

definition js_includes :: "string \<Rightarrow> string \<Rightarrow> bool" where
  "js_includes s t \<longleftrightarrow> js_indexOf_from s t 0 \<noteq> -1"

section \<open>Arrays\<close>

text \<open>
  \<open>Array.prototype.sort(comparefn)\<close>: with a consistent comparator the ECMAScript
  specification fixes the result of a stable sort up to nothing, so any stable sort models
  it. We take insertion from the right: an element is put before the first element it does
  not compare greater than, so equal elements keep their order.
\<close>

fun js_insert :: "('a \<Rightarrow> 'a \<Rightarrow> int) \<Rightarrow> 'a \<Rightarrow> 'a list \<Rightarrow> 'a list" where
  "js_insert cmp x [] = [x]"
| "js_insert cmp x (y # ys) = (if cmp x y \<le> 0 then x # y # ys else y # js_insert cmp x ys)"

definition js_sort :: "('a \<Rightarrow> 'a \<Rightarrow> int) \<Rightarrow> 'a list \<Rightarrow> 'a list" where
  "js_sort cmp xs = foldr (js_insert cmp) xs []"

text \<open>\<open>[...new Set(xs)]\<close>: each value once, in the order of its first insertion.\<close>

definition js_set_values :: "'a list \<Rightarrow> 'a list" where
  "js_set_values xs = foldl (\<lambda>acc x. if x \<in> set acc then acc else acc @ [x]) [] xs"

text \<open>
  \<open>Array(len)\<close> with a number: a RangeError unless \<open>len\<close> is an array length
  (an integer in \<open>[0, 2^32)\<close>), otherwise \<open>len\<close> empty slots; spreading it
  (\<open>[...Array(n)]\<close>) gives \<open>n\<close> undefined values.
\<close>

datatype js_error = RangeError

definition js_Array :: "int \<Rightarrow> js_error + unit list" where
  "js_Array len = (if 0 \<le> len \<and> len < 2 ^ 32 then Inr (replicate (nat len) ()) else Inl RangeError)"

section \<open>Numbers\<close>

datatype js_num = JsNum real | JsNaN | JsPosInf | JsNegInf

definition js_div :: "real \<Rightarrow> real \<Rightarrow> js_num" where
  "js_div a b =
     (if b \<noteq> 0 then JsNum (a / b)
      else if a = 0 then JsNaN else if 0 < a then JsPosInf else JsNegInf)"

text \<open>
  \<open>new Date('YYYY-MM-DD').getTime()\<close>: a date-only ISO string is read as midnight UTC.
  The day count is the civil-from-days algorithm run backwards (proleptic Gregorian
  calendar); HOL's \<open>div\<close> on \<open>int\<close> rounds down, as the algorithm needs.
\<close>

definition days_from_civil :: "int \<Rightarrow> int \<Rightarrow> int \<Rightarrow> int" where
  "days_from_civil y m d =
     (let y' = (if m \<le> 2 then y - 1 else y);
          era = y' div 400;
          yoe = y' - era * 400;
          doy = (153 * (if 2 < m then m - 3 else m + 9) + 2) div 5 + d - 1;
          doe = yoe * 365 + yoe div 4 - yoe div 100 + doy
      in era * 146097 + doe - 719468)"

definition js_date_utc :: "int \<Rightarrow> int \<Rightarrow> int \<Rightarrow> timestamp" where
  "js_date_utc y m d = days_from_civil y m d * 86400000"

text \<open>
  Printing numbers. \<open>Number::toString\<close> of a non-negative integer is its decimal digits;
  \<open>x.toFixed(1)\<close> rounds \<open>10 |x|\<close> to the nearest integer \<open>n\<close> (the larger one on a
  tie), writes \<open>n\<close> with at least two digits and a point before the last, and puts
  \<open>-\<close> in front when \<open>x < 0\<close>. Values of magnitude \<open>10^21\<close> or more, which
  \<open>toFixed\<close> prints in exponent form, are not modelled. \<open>x\<close> is the exact real here, where
  JavaScript rounds the double nearest to it: the two differ at a tie whose double lies
  below it (\<open>87/20\<close> prints \<open>4.3\<close> in JavaScript). \<open>decimal_value\<close> reads digits back.
\<close>

definition digit_char :: "nat \<Rightarrow> char" where
  "digit_char d = char_of (48 + d)"

fun decimal_string :: "nat \<Rightarrow> string" where
  "decimal_string n =
     (if n < 10 then [digit_char n] else decimal_string (n div 10) @ [digit_char (n mod 10)])"

declare decimal_string.simps [simp del]

definition decimal_value :: "string \<Rightarrow> nat" where
  "decimal_value s = foldl (\<lambda>acc c. 10 * acc + (of_char c - 48)) 0 s"

definition js_toFixed1 :: "js_num \<Rightarrow> string" where
  "js_toFixed1 v =
     (case v of
        JsNaN \<Rightarrow> ''NaN''
      | JsPosInf \<Rightarrow> ''Infinity''
      | JsNegInf \<Rightarrow> ''-Infinity''
      | JsNum x \<Rightarrow>
          (let n = nat \<lfloor>10 * \<bar>x\<bar> + 1 / 2\<rfloor>;
               m = decimal_string n;
               m' = (if length m < 2 then CHR ''0'' # m else m)
           in (if x < 0 then ''-'' else []) @ take (length m' - 1) m' @ ''.'' @ drop (length m' - 1) m'))"

section \<open>Lemmas on strings\<close>

lemma js_lower_char_idem [simp]: "js_lower_char (js_lower_char c) = js_lower_char c"
  by (auto simp: js_lower_char_def)

lemma js_toLowerCase_idem [simp, js_simps]:
  "js_toLowerCase (js_toLowerCase s) = js_toLowerCase s"
  by (simp add: js_toLowerCase_def comp_def)

lemma js_toLowerCase_length [simp]: "length (js_toLowerCase s) = length s"
  by (simp add: js_toLowerCase_def)

lemma js_toLowerCase_Nil [simp, js_simps]: "js_toLowerCase [] = []"
  by (simp add: js_toLowerCase_def)

lemma dropWhile_all_iff: "(\<forall>x \<in> set (dropWhile P s). P x) \<longleftrightarrow> (\<forall>x \<in> set s. P x)"
  by (induction s) auto

lemma js_trim_Nil_iff [js_simps]: "js_trim s = [] \<longleftrightarrow> (\<forall>c \<in> set s. js_is_ws c)"
  by (simp add: js_trim_def dropWhile_eq_Nil_conv dropWhile_all_iff)

lemma js_indexOf_from_found:
  "js_indexOf_from s t k \<noteq> -1 \<longleftrightarrow>
     (\<exists>j \<ge> k. j + length t \<le> length s \<and> take (length t) (drop j s) = t)"
proof (induction s t k rule: js_indexOf_from.induct)
  case (1 s t k)
  show ?case
  proof (cases "length s < k + length t")
    case True
    then show ?thesis by (auto simp: js_indexOf_from.simps [of s t k])
  next
    case False
    show ?thesis
    proof (cases "take (length t) (drop k s) = t")
      case True
      with False show ?thesis by (auto simp: js_indexOf_from.simps [of s t k])
    next
      case found: False
      with False "1.IH" have "js_indexOf_from s t k \<noteq> -1 \<longleftrightarrow>
          (\<exists>j \<ge> Suc k. j + length t \<le> length s \<and> take (length t) (drop j s) = t)"
        by (simp add: js_indexOf_from.simps [of s t k])
      also have "\<dots> \<longleftrightarrow> (\<exists>j \<ge> k. j + length t \<le> length s \<and> take (length t) (drop j s) = t)"
      proof
        assume "\<exists>j \<ge> Suc k. j + length t \<le> length s \<and> take (length t) (drop j s) = t"
        then show "\<exists>j \<ge> k. j + length t \<le> length s \<and> take (length t) (drop j s) = t"
          using Suc_leD by blast
      next
        assume "\<exists>j \<ge> k. j + length t \<le> length s \<and> take (length t) (drop j s) = t"
        then obtain j where "k \<le> j" "j + length t \<le> length s" "take (length t) (drop j s) = t"
          by blast
        moreover from found \<open>take (length t) (drop j s) = t\<close> have "j \<noteq> k" by blast
        ultimately show "\<exists>j \<ge> Suc k. j + length t \<le> length s \<and> take (length t) (drop j s) = t"
          by (intro exI [of _ j]) simp
      qed
      finally show ?thesis .
    qed
  qed
qed

lemma sublist_iff_take_drop:
  "sublist t s \<longleftrightarrow> (\<exists>j. j + length t \<le> length s \<and> take (length t) (drop j s) = t)"
proof
  assume "sublist t s"
  then obtain ps ss where "s = ps @ t @ ss" by (auto simp: sublist_def)
  then show "\<exists>j. j + length t \<le> length s \<and> take (length t) (drop j s) = t"
    by (intro exI [of _ "length ps"]) simp
next
  assume "\<exists>j. j + length t \<le> length s \<and> take (length t) (drop j s) = t"
  then obtain j where "take (length t) (drop j s) = t" by blast
  then have "s = take j s @ t @ drop (length t) (drop j s)"
    by (metis append_take_drop_id)
  then show "sublist t s" unfolding sublist_def by blast
qed

lemma js_includes_iff_sublist [js_simps]: "js_includes s t \<longleftrightarrow> sublist t s"
  by (simp add: js_includes_def js_indexOf_from_found sublist_iff_take_drop)

lemma js_includes_Nil [simp]: "js_includes s []"
  by (simp add: js_includes_iff_sublist)

section \<open>Lemmas on sorting\<close>

lemma js_insert_insort_key:
  "js_insert (\<lambda>a b. f b - f a) x ys = insort_key (\<lambda>r. - f r) x ys"
  by (induction ys) auto

lemma js_sort_sort_key [js_simps]:
  "js_sort (\<lambda>a b. f b - f a) xs = sort_key (\<lambda>r. - f r) xs"
  by (induction xs) (simp_all add: js_sort_def sort_key_def js_insert_insort_key)

lemma mset_js_insert [simp]: "mset (js_insert cmp x ys) = add_mset x (mset ys)"
  by (induction ys) auto

lemma mset_js_sort [simp]: "mset (js_sort cmp xs) = mset xs"
  by (induction xs) (simp_all add: js_sort_def)

lemma sorted_desc_iff_neg:
  fixes f :: "'a \<Rightarrow> int"
  shows "sorted (map (\<lambda>r. - f r) xs) \<longleftrightarrow> sorted_wrt (\<ge>) (map f xs)"
  by (simp add: sorted_map sorted_wrt_map)

section \<open>Lemmas on sets and numbers\<close>

lemma js_set_values_foldl:
  "distinct acc \<Longrightarrow>
     set (foldl (\<lambda>acc x. if x \<in> set acc then acc else acc @ [x]) acc xs) = set acc \<union> set xs \<and>
     distinct (foldl (\<lambda>acc x. if x \<in> set acc then acc else acc @ [x]) acc xs)"
  by (induction xs arbitrary: acc) auto

lemma js_set_values_set [simp]: "set (js_set_values xs) = set xs"
  using js_set_values_foldl [of "[]" xs] by (simp add: js_set_values_def)

lemma js_set_values_distinct [simp]: "distinct (js_set_values xs)"
  using js_set_values_foldl [of "[]" xs] by (simp add: js_set_values_def)

lemma js_set_values_length [js_simps]: "length (js_set_values xs) = card (set xs)"
  by (metis distinct_card js_set_values_distinct js_set_values_set)

lemma digit_char_value [simp]: "d < 10 \<Longrightarrow> of_char (digit_char d) - 48 = d"
  by (simp add: digit_char_def)

lemma decimal_value_append [simp]:
  "decimal_value (xs @ [c]) = 10 * decimal_value xs + (of_char c - 48)"
  by (simp add: decimal_value_def)

lemma decimal_string_small [js_simps]: "n < 10 \<Longrightarrow> decimal_string n = [digit_char n]"
  by (simp add: decimal_string.simps [of n])

lemma decimal_string_large [js_simps]:
  "10 \<le> n \<Longrightarrow> decimal_string n = decimal_string (n div 10) @ [digit_char (n mod 10)]"
  by (simp add: decimal_string.simps [of n])

lemma decimal_string_value [js_simps]: "decimal_value (decimal_string n) = n"
proof (induction n rule: decimal_string.induct)
  case (1 n)
  show ?case
  proof (cases "n < 10")
    case True
    then show ?thesis
      by (simp add: decimal_string.simps [of n] decimal_value_def)
  next
    case False
    with "1.IH" show ?thesis by (simp add: decimal_string.simps [of n])
  qed
qed

lemma decimal_string_two_digits:
  assumes "10 \<le> n" and "n < 100"
  shows "decimal_string n = [digit_char (n div 10), digit_char (n mod 10)]"
  using assms by (simp add: decimal_string.simps [of n] decimal_string.simps [of "n div 10"])

lemma round_half_up_close:
  fixes y :: real
  shows "\<bar>real_of_int \<lfloor>y + 1 / 2\<rfloor> - y\<bar> \<le> 1 / 2"
  using floor_correct [of "y + 1 / 2"] by linarith

lemma round_tenth_close:
  fixes x :: real
  assumes "0 \<le> x"
  shows "\<bar>real (nat \<lfloor>10 * x + 1 / 2\<rfloor>) / 10 - x\<bar> \<le> 1 / 20"
proof -
  define a where "a = real_of_int \<lfloor>10 * x + 1 / 2\<rfloor>"
  have close: "\<bar>a - 10 * x\<bar> \<le> 1 / 2" unfolding a_def by (rule round_half_up_close)
  have "0 \<le> \<lfloor>10 * x + 1 / 2\<rfloor>" using assms by simp
  then have eq: "real (nat \<lfloor>10 * x + 1 / 2\<rfloor>) = a" unfolding a_def by simp
  from close have "\<bar>a / 10 - x\<bar> \<le> 1 / 20" unfolding abs_le_iff by linarith
  then show ?thesis by (simp only: eq)
qed

lemma js_div_nonzero [simp]: "b \<noteq> 0 \<Longrightarrow> js_div a b = JsNum (a / b)"
  by (simp add: js_div_def)

lemma js_div_zero_zero [simp]: "js_div 0 0 = JsNaN"
  by (simp add: js_div_def)

end
