(* ===== verification/Review_Model.thy ===== *)
theory Review_Model
  imports JS_Prelude
begin

text \<open>
  The data model of the community page (\<open>src/gggg/project/src/pages/citizen/CommunityPage.tsx\<close>):
  the \<open>Review\<close> interface as a record, the complaint records that the page reads from the
  complaint context (the context is not among the sources; its type is modelled from the
  spec, section 3), and the review repository of the page, \<open>generateReviews\<close>, which
  returns a fixed list of five reviews, whatever the complaints are.
\<close>

section \<open>Complaints (read from the complaint context)\<close>

datatype complaint_status = Submitted | Routed | In_Progress | Resolved | Closed

record complaint =
  complaint_id :: string
  complaint_title :: string
  complaint_address :: string \<comment> \<open>\<open>location.address\<close>\<close>
  status :: complaint_status
  submittedBy :: string
  complaint_rating :: "int option" \<comment> \<open>optional satisfaction score, set at resolution\<close>

text \<open>A JavaScript number used as a condition is true unless it is absent or zero.\<close>

definition js_truthy_num :: "int option \<Rightarrow> bool" where
  "js_truthy_num x \<longleftrightarrow> (case x of None \<Rightarrow> False | Some n \<Rightarrow> n \<noteq> 0)"

section \<open>Reviews\<close>

record review =
  review_id :: string
  complaintId :: string
  userId :: string
  userName :: string
  userAvatar :: "string option"
  rating :: int
  title :: string
  content :: string
  photos :: "string list option"
  helpful :: int
  notHelpful :: int
  createdAt :: timestamp
  category :: string
  location :: string
  serviceProvider :: string

definition mockReviews :: "review list" where
  "mockReviews = [
    \<lparr>review_id = ''review-1'',
     complaintId = ''complaint-1'',
     userId = ''user-1'',
     userName = ''Sarah Johnson'',
     userAvatar = Some ''https://images.pexels.com/photos/774909/pexels-photo-774909.jpeg?auto=compress&cs=tinysrgb&w=150&h=150&fit=crop'',
     rating = 5,
     title = ''Excellent Water Service Repair'',
     content = ''The water department responded quickly to my complaint about low water pressure. The technician was professional, explained the issue clearly, and fixed it within 2 hours. Very impressed with the service quality!'',
     photos = Some [''https://images.pexels.com/photos/1108572/pexels-photo-1108572.jpeg?auto=compress&cs=tinysrgb&w=400''],
     helpful = 12,
     notHelpful = 1,
     createdAt = js_date_utc 2024 6 10,
     category = ''Water Services'',
     location = ''Downtown District'',
     serviceProvider = ''City Water Department''\<rparr>,
    \<lparr>review_id = ''review-2'',
     complaintId = ''complaint-2'',
     userId = ''user-2'',
     userName = ''Michael Chen'',
     userAvatar = Some ''https://images.pexels.com/photos/1222271/pexels-photo-1222271.jpeg?auto=compress&cs=tinysrgb&w=150&h=150&fit=crop'',
     rating = 4,
     title = ''Road Repair Completed Successfully'',
     content = ''The pothole on Main Street was finally fixed after my complaint. It took about a week, but the quality of work is good. The road is smooth now and should last for years. Thank you to the road maintenance team!'',
     photos = None,
     helpful = 8,
     notHelpful = 0,
     createdAt = js_date_utc 2024 6 8,
     category = ''Roads & Transportation'',
     location = ''Main Street'',
     serviceProvider = ''Public Works Department''\<rparr>,
    \<lparr>review_id = ''review-3'',
     complaintId = ''complaint-3'',
     userId = ''user-3'',
     userName = ''Emily Rodriguez'',
     userAvatar = Some ''https://images.pexels.com/photos/1239291/pexels-photo-1239291.jpeg?auto=compress&cs=tinysrgb&w=150&h=150&fit=crop'',
     rating = 5,
     title = ''Street Light Fixed Promptly'',
     content = ''Reported a broken street light near the school and it was fixed the next day! Great response time and the new LED light is much brighter. Makes the area safer for kids walking to school.'',
     photos = Some [''https://images.pexels.com/photos/1108572/pexels-photo-1108572.jpeg?auto=compress&cs=tinysrgb&w=400''],
     helpful = 15,
     notHelpful = 0,
     createdAt = js_date_utc 2024 6 5,
     category = ''Street Lighting'',
     location = ''School District'',
     serviceProvider = ''Electrical Services''\<rparr>,
    \<lparr>review_id = ''review-4'',
     complaintId = ''complaint-4'',
     userId = ''user-4'',
     userName = ''David Kim'',
     userAvatar = None,
     rating = 3,
     title = ''Sanitation Service - Room for Improvement'',
     content = ''The garbage collection issue was resolved, but it took longer than expected. The crew was friendly when they came, but communication could be better. Overall satisfied with the outcome.'',
     photos = None,
     helpful = 5,
     notHelpful = 2,
     createdAt = js_date_utc 2024 6 3,
     category = ''Sanitation'',
     location = ''Residential Area'',
     serviceProvider = ''Waste Management''\<rparr>,
    \<lparr>review_id = ''review-5'',
     complaintId = ''complaint-5'',
     userId = ''user-5'',
     userName = ''Lisa Thompson'',
     userAvatar = None,
     rating = 5,
     title = ''Outstanding Electrical Service'',
     content = ''Power outage was resolved within 4 hours of reporting. The electrical team worked efficiently and kept us updated throughout the process. Excellent emergency response!'',
     photos = None,
     helpful = 20,
     notHelpful = 1,
     createdAt = js_date_utc 2024 6 1,
     category = ''Electricity'',
     location = ''North District'',
     serviceProvider = ''Power Company''\<rparr>]"

text \<open>
  \<open>generateReviews\<close> filters the resolved, rated complaints and then ignores the result:
  the reviews are the fixed list above whatever the complaints are.
\<close>

definition generateReviews :: "complaint list \<Rightarrow> review list" where
  "generateReviews complaints =
     (let resolvedComplaints =
        filter (\<lambda>c. status c = Resolved \<and> js_truthy_num (complaint_rating c)) complaints
      in mockReviews)"

end
