(* ===== verification/Eligibility.thy ===== *)
theory Eligibility
  imports Review_Model
begin

text \<open>
  The eligibility resolver of the community page (\<open>userResolvedComplaints\<close>,
  \<open>CommunityPage.tsx\<close> lines 151--155): the complaints of the signed-in user that are
  resolved and that the user has not reviewed yet, in the order of the complaint store.
  \<open>user?.id\<close> is \<open>undefined\<close> when no user is signed in, and no string equals it: the
  user is a \<open>string option\<close> and the comparisons are against \<open>Some\<close>.
\<close>

definition userResolvedComplaints ::
  "complaint list \<Rightarrow> review list \<Rightarrow> string option \<Rightarrow> complaint list" where
  "userResolvedComplaints complaints reviews user =
     filter (\<lambda>c. Some (submittedBy c) = user \<and> status c = Resolved \<and>
                 \<not> list_ex (\<lambda>r. complaintId r = complaint_id c \<and> Some (userId r) = user) reviews)
       complaints"

text \<open>The abstract contract of the spec (section 4.1), as a predicate on one complaint.\<close>

definition eligible_for :: "review list \<Rightarrow> string \<Rightarrow> complaint \<Rightarrow> bool" where
  "eligible_for reviews u c \<longleftrightarrow>
     status c = Resolved \<and> submittedBy c = u \<and>
     (\<forall>r \<in> set reviews. complaintId r = complaint_id c \<longrightarrow> userId r \<noteq> u)"

lemma userResolvedComplaints_filter:
  "userResolvedComplaints cs rs (Some u) = filter (eligible_for rs u) cs"
  unfolding userResolvedComplaints_def eligible_for_def
  by (intro filter_cong) (auto simp: list_ex_iff)

lemma userResolvedComplaints_None [simp]: "userResolvedComplaints cs rs None = []"
  by (simp add: userResolvedComplaints_def)

lemma userResolvedComplaints_subset: "set (userResolvedComplaints cs rs u) \<subseteq> set cs"
  by (auto simp: userResolvedComplaints_def)


section \<open>Properties\<close>

text \<open>
  C8. The resolver implements the contract of the spec (section 4.1): signed out, no
  complaint is eligible; signed in as \<open>u\<close>, the eligible complaints are exactly those of
  the store that are resolved, filed by \<open>u\<close> and not reviewed by \<open>u\<close>, in the order of
  the store.
\<close>

theorem userResolvedComplaints_contract:
  "userResolvedComplaints cs rs user =
     (case user of None \<Rightarrow> [] | Some u \<Rightarrow> filter (eligible_for rs u) cs)"
  by (cases user) (simp_all add: userResolvedComplaints_filter)

theorem userResolvedComplaints_contract_witness:
  "map complaint_id
     (userResolvedComplaints
       [\<lparr>complaint_id = ''c1'', complaint_title = ''Pothole'', complaint_address = ''Main Street'',
         status = Resolved, submittedBy = ''u1'', complaint_rating = Some 5\<rparr>,
        \<lparr>complaint_id = ''c2'', complaint_title = ''Streetlight'', complaint_address = ''Elm Road'',
         status = In_Progress, submittedBy = ''u1'', complaint_rating = None\<rparr>]
       mockReviews (Some ''u1'')) = [''c1'']"
  by (simp add: userResolvedComplaints_contract eligible_for_def mockReviews_def)



end
