(* ===== verification/Query.thy ===== *)
theory Query
  imports Review_Model
begin

text \<open>
  The filter and sort pipeline of the community page (\<open>CommunityPage.tsx\<close>): the four
  controls of the filter bar are the state variables \<open>searchTerm\<close>,
  \<open>categoryFilter\<close>, \<open>ratingFilter\<close> and \<open>sortBy\<close> (lines 45--48), a record that
  the page state extends. \<open>filteredReviews\<close> (lines 157--168) keeps the reviews that match
  all three predicates; \<open>sortedReviews\<close> (lines 170--180) copies the result and sorts it
  with a comparator chosen by \<open>sortBy\<close>. \<open>sortBy\<close> is set from a select with
  \<open>as any\<close>, so it is a string, and the \<open>switch\<close> sends every other value to
  the \<open>recent\<close> order.
\<close>

record review_query =
  searchTerm :: string
  categoryFilter :: string
  ratingFilter :: string
  sortBy :: string

definition matchesSearch :: "'a review_query_scheme \<Rightarrow> review \<Rightarrow> bool" where
  "matchesSearch q r \<longleftrightarrow>
     js_includes (js_toLowerCase (title r)) (js_toLowerCase (searchTerm q)) \<or>
     js_includes (js_toLowerCase (content r)) (js_toLowerCase (searchTerm q)) \<or>
     js_includes (js_toLowerCase (category r)) (js_toLowerCase (searchTerm q))"

definition matchesCategory :: "'a review_query_scheme \<Rightarrow> review \<Rightarrow> bool" where
  "matchesCategory q r \<longleftrightarrow>
     categoryFilter q = ''all'' \<or>
     js_includes (js_toLowerCase (category r)) (js_toLowerCase (categoryFilter q))"

definition matchesRating :: "'a review_query_scheme \<Rightarrow> review \<Rightarrow> bool" where
  "matchesRating q r \<longleftrightarrow>
     ratingFilter q = ''all'' \<or>
     (ratingFilter q = ''5'' \<and> rating r = 5) \<or>
     (ratingFilter q = ''4'' \<and> rating r = 4) \<or>
     (ratingFilter q = ''3'' \<and> rating r \<le> 3)"

definition filteredReviews :: "'a review_query_scheme \<Rightarrow> review list \<Rightarrow> review list" where
  "filteredReviews q reviews =
     filter (\<lambda>r. matchesSearch q r \<and> matchesCategory q r \<and> matchesRating q r) reviews"

definition review_compare :: "string \<Rightarrow> review \<Rightarrow> review \<Rightarrow> int" where
  "review_compare s a b =
     (if s = ''rating'' then rating b - rating a
      else if s = ''helpful'' then helpful b - helpful a
      else createdAt b - createdAt a)"

definition sortedReviews :: "'a review_query_scheme \<Rightarrow> review list \<Rightarrow> review list" where
  "sortedReviews q reviews = js_sort (review_compare (sortBy q)) (filteredReviews q reviews)"

definition initial_query :: review_query where
  "initial_query = \<lparr>searchTerm = [], categoryFilter = ''all'', ratingFilter = ''all'', sortBy = ''recent''\<rparr>"

section \<open>The sort key behind each comparator\<close>

text \<open>Every comparator of the \<open>switch\<close> is a difference of one key, larger first.\<close>

definition review_sort_key :: "string \<Rightarrow> review \<Rightarrow> int" where
  "review_sort_key s r =
     (if s = ''rating'' then rating r else if s = ''helpful'' then helpful r else createdAt r)"

text \<open>
  The declared type of \<open>sortBy\<close> (line 48), the union \<open>'recent' | 'rating' | 'helpful'\<close>,
  as a datatype: \<open>sort_order_name\<close> is the string literal of each member and
  \<open>sort_order_key\<close> the key its case of the \<open>switch\<close> (lines 172--179) compares. The type is
  finite, so it is an instance of \<open>enum\<close> and quantifiers over it compute.
\<close>

datatype sort_order = Recent | ByRating | ByHelpful

instantiation sort_order :: enum
begin

definition "enum_sort_order = [Recent, ByRating, ByHelpful]"

definition "enum_all_sort_order P \<longleftrightarrow> P Recent \<and> P ByRating \<and> P ByHelpful"

definition "enum_ex_sort_order P \<longleftrightarrow> P Recent \<or> P ByRating \<or> P ByHelpful"

instance
proof
  have univ: "(UNIV :: sort_order set) = {Recent, ByRating, ByHelpful}"
    using sort_order.exhaust by blast
  show "(UNIV :: sort_order set) = set enum_class.enum"
    by (simp add: univ enum_sort_order_def)
  show "distinct (enum_class.enum :: sort_order list)"
    by (simp add: enum_sort_order_def)
  fix P :: "sort_order \<Rightarrow> bool"
  show "enum_class.enum_all P = Ball UNIV P"
    by (simp add: univ enum_all_sort_order_def)
  show "enum_class.enum_ex P = Bex UNIV P"
    by (simp add: univ enum_ex_sort_order_def)
qed

end

primrec sort_order_name :: "sort_order \<Rightarrow> string" where
  "sort_order_name Recent = ''recent''"
| "sort_order_name ByRating = ''rating''"
| "sort_order_name ByHelpful = ''helpful''"

primrec sort_order_key :: "sort_order \<Rightarrow> review \<Rightarrow> int" where
  "sort_order_key Recent = createdAt"
| "sort_order_key ByRating = rating"
| "sort_order_key ByHelpful = helpful"

lemma review_compare_key: "review_compare s = (\<lambda>a b. review_sort_key s b - review_sort_key s a)"
  by (simp add: fun_eq_iff review_compare_def review_sort_key_def)

lemma sortedReviews_sort_key:
  "sortedReviews q rs = sort_key (\<lambda>r. - review_sort_key (sortBy q) r) (filteredReviews q rs)"
  by (simp add: sortedReviews_def review_compare_key js_sort_sort_key)

lemma review_sort_key_order: "review_sort_key (sort_order_name k) = sort_order_key k"
  by (cases k) (simp_all add: fun_eq_iff review_sort_key_def)

lemma sort_order_name_inj: "sort_order_name k = sort_order_name k' \<longleftrightarrow> k = k'"
  by (cases k; cases k') simp_all

lemma matchesSearch_sublist:
  "matchesSearch q r \<longleftrightarrow>
     sublist (js_toLowerCase (searchTerm q)) (js_toLowerCase (title r)) \<or>
     sublist (js_toLowerCase (searchTerm q)) (js_toLowerCase (content r)) \<or>
     sublist (js_toLowerCase (searchTerm q)) (js_toLowerCase (category r))"
  by (simp add: matchesSearch_def js_simps)

lemma matchesCategory_sublist:
  "matchesCategory q r \<longleftrightarrow>
     categoryFilter q = ''all'' \<or>
     sublist (js_toLowerCase (categoryFilter q)) (js_toLowerCase (category r))"
  by (simp add: matchesCategory_def js_simps)

lemma matches_default [simp]:
  "searchTerm q = [] \<Longrightarrow> matchesSearch q r"
  "categoryFilter q = ''all'' \<Longrightarrow> matchesCategory q r"
  "ratingFilter q = ''all'' \<Longrightarrow> matchesRating q r"
  by (simp_all add: matchesSearch_def matchesCategory_def matchesRating_def)

lemmas query_eval = sortedReviews_sort_key filteredReviews_def matchesSearch_def
  matchesCategory_def matchesRating_def js_includes_iff_sublist js_toLowerCase_def
  js_lower_char_def char_of_eq_iff sublist_code review_sort_key_def initial_query_def

section \<open>Properties\<close>

text \<open>
  C5. The sorted list is a stable sort of the filtered list by the key \<open>sortBy\<close> selects,
  larger first: it is a permutation of the filtered reviews, its keys descend, and reviews
  with equal keys keep the order of the repository.
\<close>

theorem sortedReviews_correct:
  "mset (sortedReviews q rs) = mset (filteredReviews q rs) \<and>
   sorted_wrt (\<ge>) (map (review_sort_key (sortBy q)) (sortedReviews q rs)) \<and>
   (\<forall>k. filter (\<lambda>r. review_sort_key (sortBy q) r = k) (sortedReviews q rs) =
        filter (\<lambda>r. review_sort_key (sortBy q) r = k) (filteredReviews q rs))"
proof (intro conjI allI)
  show "mset (sortedReviews q rs) = mset (filteredReviews q rs)"
    by (simp add: sortedReviews_sort_key)
  show "sorted_wrt (\<ge>) (map (review_sort_key (sortBy q)) (sortedReviews q rs))"
    using sorted_sort_key [of "\<lambda>r. - review_sort_key (sortBy q) r"]
    by (simp add: sortedReviews_sort_key sorted_desc_iff_neg)
  fix k
  show "filter (\<lambda>r. review_sort_key (sortBy q) r = k) (sortedReviews q rs) =
        filter (\<lambda>r. review_sort_key (sortBy q) r = k) (filteredReviews q rs)"
    using sort_key_stable [of "\<lambda>r. - review_sort_key (sortBy q) r" "- k" "filteredReviews q rs"]
    by (simp add: sortedReviews_sort_key)
qed

text \<open>
  C6. With the controls at their initial values (empty search, all categories, all
  ratings, most recent first) the page shows every review, newest first, reviews of the same
  instant in repository order.
\<close>

theorem default_query_recent:
  assumes "searchTerm q = []" and "categoryFilter q = ''all''" and "ratingFilter q = ''all''"
    and "sortBy q = ''recent''"
  shows "sortedReviews q rs = sort_key (\<lambda>r. - createdAt r) rs"
  using assms by (simp add: sortedReviews_sort_key filteredReviews_def review_sort_key_def)

theorem default_query_recent_witness:
  "map review_id (sortedReviews initial_query mockReviews) =
     [''review-1'', ''review-2'', ''review-3'', ''review-4'', ''review-5'']"
proof -
  have "sortedReviews initial_query mockReviews = sort_key (\<lambda>r. - createdAt r) mockReviews"
    by (rule default_query_recent) (simp_all add: initial_query_def)
  then show ?thesis by (simp add: mockReviews_def js_date_utc_def days_from_civil_def)
qed

text \<open>
  C7. Search terms that differ only in the case of their letters select the same reviews:
  \<open>"POTHOLE"\<close> finds the review about the pothole on Main Street as \<open>"pothole"\<close> does.
\<close>

theorem search_case_insensitive:
  assumes "js_toLowerCase t = js_toLowerCase t'"
  shows "filteredReviews (q\<lparr>searchTerm := t\<rparr>) rs = filteredReviews (q\<lparr>searchTerm := t'\<rparr>) rs"
  using assms by (simp add: filteredReviews_def matchesSearch_def matchesCategory_def matchesRating_def)

theorem search_case_insensitive_witness:
  "js_toLowerCase ''POTHOLE'' = js_toLowerCase ''pothole'' \<and>
   filteredReviews (initial_query\<lparr>searchTerm := ''POTHOLE''\<rparr>) [mockReviews ! 1] =
     filteredReviews (initial_query\<lparr>searchTerm := ''pothole''\<rparr>) [mockReviews ! 1] \<and>
   filteredReviews (initial_query\<lparr>searchTerm := ''pothole''\<rparr>) [mockReviews ! 1] = [mockReviews ! 1]"
proof -
  have h: "js_toLowerCase ''POTHOLE'' = js_toLowerCase ''pothole''"
    by (simp add: js_toLowerCase_def js_lower_char_def char_of_eq_iff)
  have e: "filteredReviews (initial_query\<lparr>searchTerm := ''POTHOLE''\<rparr>) [mockReviews ! 1] =
           filteredReviews (initial_query\<lparr>searchTerm := ''pothole''\<rparr>) [mockReviews ! 1]"
    by (rule search_case_insensitive [OF h])
  have "filteredReviews (initial_query\<lparr>searchTerm := ''pothole''\<rparr>) [mockReviews ! 1] = [mockReviews ! 1]"
    by (simp add: query_eval mockReviews_def)
  with h e show ?thesis by simp
qed

end
