(* ===== verification/Write_Review.thy ===== *)
theory Write_Review
  imports Eligibility Query
begin

text \<open>
  The state of the community page and its event handlers (\<open>CommunityPage.tsx\<close>). The
  \<open>useState\<close> variables of lines 45--56 are a record that extends the filter controls of
  \<open>Query\<close> with the modal flag, the selected complaint and the draft review
  (\<open>newReview\<close>); \<open>posted\<close> records what the submit handler writes to the console,
  the only effect \<open>handleWriteReview\<close> has besides resetting the form. The context the
  page reads (the complaints and the signed-in user) is fixed while the page is shown.

  Each handler is one definition; \<open>dispatch\<close> routes a user event to its handler when the
  element that receives it is rendered and enabled (a disabled button or an option that is
  not offered receives no event, so the state is unchanged). The reachable states are an
  inductive predicate; the invariant \<open>page_inv\<close> holds in all of them, and with it every
  posted review passes the validator of the spec (section 4.2), \<open>validate_submission\<close>.
\<close>

section \<open>State\<close>

record 'p draft =
  draft_rating :: int
  draft_title :: string
  draft_content :: string
  draft_photos :: "'p list"

definition empty_draft :: "'p draft" where
  "empty_draft = \<lparr>draft_rating = 5, draft_title = [], draft_content = [], draft_photos = []\<rparr>"

record 'p page_state = review_query +
  showWriteReview :: bool
  selectedComplaint :: string
  newReview :: "'p draft"
  posted :: "(string \<times> 'p draft) list"

definition initial_page_state :: "'p page_state" where
  "initial_page_state =
     \<lparr>searchTerm = [], categoryFilter = ''all'', ratingFilter = ''all'', sortBy = ''recent'',
      showWriteReview = False, selectedComplaint = [], newReview = empty_draft, posted = []\<rparr>"

record page_ctx =
  ctx_complaints :: "complaint list" \<comment> \<open>\<open>useComplaints()\<close>\<close>
  ctx_user :: "string option" \<comment> \<open>\<open>useAuth().user?.id\<close>\<close>

definition page_reviews :: "page_ctx \<Rightarrow> review list" where
  "page_reviews ctx = generateReviews (ctx_complaints ctx)"

definition page_eligible :: "page_ctx \<Rightarrow> complaint list" where
  "page_eligible ctx = userResolvedComplaints (ctx_complaints ctx) (page_reviews ctx) (ctx_user ctx)"

section \<open>Handlers\<close>

definition handleWriteReview :: "'p page_state \<Rightarrow> 'p page_state" where
  "handleWriteReview st =
     (if selectedComplaint st = [] \<or> js_trim (draft_title (newReview st)) = [] \<or>
         js_trim (draft_content (newReview st)) = []
      then st
      else st\<lparr>posted := posted st @ [(selectedComplaint st, newReview st)],
              newReview := empty_draft, selectedComplaint := [], showWriteReview := False\<rparr>)"

definition handlePhotoUpload :: "'p list \<Rightarrow> 'p page_state \<Rightarrow> 'p page_state" where
  "handlePhotoUpload files st =
     st\<lparr>newReview := (newReview st)\<lparr>draft_photos := take 3 (draft_photos (newReview st) @ files)\<rparr>\<rparr>"

definition writeReviewButtonShown :: "page_ctx \<Rightarrow> bool" where
  "writeReviewButtonShown ctx \<longleftrightarrow> 0 < length (page_eligible ctx)"

definition complaintOptions :: "page_ctx \<Rightarrow> string list" where
  "complaintOptions ctx = [] # map complaint_id (page_eligible ctx)"

definition onStarClick :: "int \<Rightarrow> 'p page_state \<Rightarrow> 'p page_state" where
  "onStarClick star st = st\<lparr>newReview := (newReview st)\<lparr>draft_rating := star\<rparr>\<rparr>"

definition onTitleChange :: "string \<Rightarrow> 'p page_state \<Rightarrow> 'p page_state" where
  "onTitleChange v st = st\<lparr>newReview := (newReview st)\<lparr>draft_title := v\<rparr>\<rparr>"

definition onContentChange :: "string \<Rightarrow> 'p page_state \<Rightarrow> 'p page_state" where
  "onContentChange v st = st\<lparr>newReview := (newReview st)\<lparr>draft_content := v\<rparr>\<rparr>"

definition postDisabled :: "'p page_state \<Rightarrow> bool" where
  "postDisabled st \<longleftrightarrow>
     selectedComplaint st = [] \<or> js_trim (draft_title (newReview st)) = [] \<or>
     js_trim (draft_content (newReview st)) = []"

definition categoryOptions :: "string list" where
  "categoryOptions = [''all'', ''water'', ''electricity'', ''roads'', ''sanitation'', ''street'']"

definition ratingOptions :: "string list" where
  "ratingOptions = [''all'', ''5'', ''4'', ''3'']"

definition sortOptions :: "string list" where
  "sortOptions = [''recent'', ''rating'', ''helpful'']"

section \<open>Events\<close>

datatype 'p page_event =
    SearchInput string
  | CategorySelect string
  | RatingSelect string
  | SortSelect string
  | WriteReviewClick
  | ComplaintSelect string
  | StarClick int
  | TitleInput string
  | ContentInput string
  | PhotoInput "'p list"
  | CancelClick
  | PostClick

fun dispatch :: "page_ctx \<Rightarrow> 'p page_event \<Rightarrow> 'p page_state \<Rightarrow> 'p page_state" where
  "dispatch ctx (SearchInput v) st = st\<lparr>searchTerm := v\<rparr>"
| "dispatch ctx (CategorySelect v) st =
     (if v \<in> set categoryOptions then st\<lparr>categoryFilter := v\<rparr> else st)"
| "dispatch ctx (RatingSelect v) st =
     (if v \<in> set ratingOptions then st\<lparr>ratingFilter := v\<rparr> else st)"
| "dispatch ctx (SortSelect v) st = (if v \<in> set sortOptions then st\<lparr>sortBy := v\<rparr> else st)"
| "dispatch ctx WriteReviewClick st =
     (if writeReviewButtonShown ctx then st\<lparr>showWriteReview := True\<rparr> else st)"
| "dispatch ctx (ComplaintSelect v) st =
     (if showWriteReview st \<and> v \<in> set (complaintOptions ctx)
      then st\<lparr>selectedComplaint := v\<rparr> else st)"
| "dispatch ctx (StarClick n) st =
     (if showWriteReview st \<and> n \<in> {1..5} then onStarClick n st else st)"
| "dispatch ctx (TitleInput v) st = (if showWriteReview st then onTitleChange v st else st)"
| "dispatch ctx (ContentInput v) st = (if showWriteReview st then onContentChange v st else st)"
| "dispatch ctx (PhotoInput fs) st = (if showWriteReview st then handlePhotoUpload fs st else st)"
| "dispatch ctx CancelClick st = (if showWriteReview st then st\<lparr>showWriteReview := False\<rparr> else st)"
| "dispatch ctx PostClick st =
     (if showWriteReview st \<and> \<not> postDisabled st then handleWriteReview st else st)"

definition page_run :: "page_ctx \<Rightarrow> 'p page_event list \<Rightarrow> 'p page_state \<Rightarrow> 'p page_state" where
  "page_run ctx evs st = foldl (\<lambda>s e. dispatch ctx e s) st evs"

inductive page_reachable :: "page_ctx \<Rightarrow> 'p page_state \<Rightarrow> bool" for ctx where
  init: "page_reachable ctx initial_page_state"
| step: "page_reachable ctx st \<Longrightarrow> page_reachable ctx (dispatch ctx ev st)"

section \<open>The validator of the spec\<close>

datatype validation_error = IneligibleComplaint | MissingTitle | MissingContent | InvalidRating

definition validate_submission ::
  "complaint list \<Rightarrow> string \<Rightarrow> 'p draft \<Rightarrow> validation_error + (string \<times> 'p draft)" where
  "validate_submission eligible c d =
     (if c = [] \<or> c \<notin> set (map complaint_id eligible) then Inl IneligibleComplaint
      else if js_trim (draft_title d) = [] then Inl MissingTitle
      else if js_trim (draft_content d) = [] then Inl MissingContent
      else if \<not> (1 \<le> draft_rating d \<and> draft_rating d \<le> 5) then Inl InvalidRating
      else Inr (c, d))"

section \<open>The scenario of the spec\<close>

text \<open>
  The scenario of the spec (section 8): complaint \<open>c1\<close>, resolved, filed by \<open>u1\<close>, who
  opens the modal, selects it, keeps the default rating 5, types a title and a content and
  posts.
\<close>

definition scenario_complaint :: complaint where
  "scenario_complaint =
     \<lparr>complaint_id = ''c1'', complaint_title = ''Pothole'', complaint_address = ''Main Street'',
      status = Resolved, submittedBy = ''u1'', complaint_rating = Some 5\<rparr>"

definition scenario_ctx :: page_ctx where
  "scenario_ctx = \<lparr>ctx_complaints = [scenario_complaint], ctx_user = Some ''u1''\<rparr>"

definition scenario_events :: "'p page_event list" where
  "scenario_events =
     [WriteReviewClick, ComplaintSelect ''c1'', TitleInput ''Great'', ContentInput ''Fixed fast'',
      PostClick]"

definition scenario_draft :: "'p draft" where
  "scenario_draft =
     \<lparr>draft_rating = 5, draft_title = ''Great'', draft_content = ''Fixed fast'', draft_photos = []\<rparr>"

section \<open>The invariant\<close>

definition draft_ok :: "'p draft \<Rightarrow> bool" where
  "draft_ok d \<longleftrightarrow> 1 \<le> draft_rating d \<and> draft_rating d \<le> 5 \<and> length (draft_photos d) \<le> 3"

definition page_inv :: "page_ctx \<Rightarrow> 'p page_state \<Rightarrow> bool" where
  "page_inv ctx st \<longleftrightarrow>
     draft_ok (newReview st) \<and>
     selectedComplaint st \<in> set (complaintOptions ctx) \<and>
     (showWriteReview st \<longrightarrow> writeReviewButtonShown ctx) \<and>
     categoryFilter st \<in> set categoryOptions \<and> ratingFilter st \<in> set ratingOptions \<and>
     sortBy st \<in> set sortOptions \<and>
     (\<forall>(c, d) \<in> set (posted st).
        validate_submission (page_eligible ctx) c d = Inr (c, d) \<and> length (draft_photos d) \<le> 3)"

lemmas page_inv_defs = page_inv_def draft_ok_def complaintOptions_def
  categoryOptions_def ratingOptions_def sortOptions_def

lemma page_inv_initial: "page_inv ctx initial_page_state"
  by (simp add: page_inv_defs initial_page_state_def empty_draft_def)

lemma handleWriteReview_inv:
  assumes "page_inv ctx st"
  shows "page_inv ctx (handleWriteReview st)"
  using assms
  by (auto simp: handleWriteReview_def page_inv_defs validate_submission_def empty_draft_def)

lemma handlePhotoUpload_inv:
  assumes "page_inv ctx st"
  shows "page_inv ctx (handlePhotoUpload fs st)"
  using assms by (auto simp: handlePhotoUpload_def page_inv_def draft_ok_def)

lemma dispatch_inv:
  assumes "page_inv ctx st"
  shows "page_inv ctx (dispatch ctx ev st)"
proof (cases ev)
  case (PhotoInput fs)
  with assms show ?thesis by (simp add: handlePhotoUpload_inv)
next
  case PostClick
  with assms show ?thesis by (simp add: handleWriteReview_inv)
qed (use assms in \<open>auto simp: page_inv_defs onStarClick_def onTitleChange_def onContentChange_def\<close>)

lemma page_reachable_inv: "page_reachable ctx st \<Longrightarrow> page_inv ctx st"
  by (induction rule: page_reachable.induct) (simp_all add: page_inv_initial dispatch_inv)

lemma page_reachable_run: "page_reachable ctx st \<Longrightarrow> page_reachable ctx (page_run ctx evs st)"
  unfolding page_run_def
  by (induction evs arbitrary: st) (auto intro: page_reachable.step)

lemmas page_eval = page_run_def page_eligible_def page_reviews_def
  userResolvedComplaints_def generateReviews_def mockReviews_def writeReviewButtonShown_def
  complaintOptions_def postDisabled_def handleWriteReview_def onTitleChange_def
  onContentChange_def onStarClick_def handlePhotoUpload_def js_trim_def js_is_ws_def
  initial_page_state_def empty_draft_def scenario_ctx_def scenario_complaint_def
  scenario_events_def scenario_draft_def validate_submission_def

section \<open>Properties\<close>

text \<open>
  C1. Every review the page posts passes the validator of the spec: its complaint is one of
  the user's eligible complaints, its title and content are not blank, its rating is in
  \<open>[1, 5]\<close>, and it carries at most three photos.
\<close>

theorem posted_reviews_valid:
  assumes "page_reachable ctx st" and "(c, d) \<in> set (posted st)"
  shows "validate_submission (page_eligible ctx) c d = Inr (c, d) \<and> length (draft_photos d) \<le> 3"
  using page_reachable_inv [OF assms(1)] assms(2) by (auto simp: page_inv_def)

theorem posted_reviews_valid_witness:
  "page_reachable scenario_ctx (page_run scenario_ctx scenario_events (initial_page_state :: nat page_state)) \<and>
   (''c1'', scenario_draft) \<in> set (posted (page_run scenario_ctx scenario_events (initial_page_state :: nat page_state))) \<and>
   validate_submission (page_eligible scenario_ctx) ''c1'' (scenario_draft :: nat draft) = Inr (''c1'', scenario_draft) \<and>
   length (draft_photos (scenario_draft :: nat draft)) \<le> 3"
proof -
  have reach: "page_reachable scenario_ctx (page_run scenario_ctx scenario_events (initial_page_state :: nat page_state))"
    by (rule page_reachable_run [OF page_reachable.init])
  have mem: "(''c1'', scenario_draft) \<in> set (posted (page_run scenario_ctx scenario_events (initial_page_state :: nat page_state)))"
    by (simp add: page_eval)
  show ?thesis using posted_reviews_valid [OF reach mem] reach mem by simp
qed

text \<open>
  C2. The Post button refines the validator: in a reachable state with the modal open, a
  click changes nothing when the validator rejects the draft, and when it accepts, the
  accepted review is posted once and the form returns to its defaults (empty draft,
  no selection, modal closed) with the filters untouched.
\<close>

theorem post_click_refines_validator:
  assumes "page_reachable ctx st" and "showWriteReview st"
  shows "dispatch ctx PostClick st =
           (case validate_submission (page_eligible ctx) (selectedComplaint st) (newReview st) of
              Inl e \<Rightarrow> st
            | Inr x \<Rightarrow> st\<lparr>posted := posted st @ [x], newReview := empty_draft,
                          selectedComplaint := [], showWriteReview := False\<rparr>)"
  using page_reachable_inv [OF assms(1)] assms(2)
  by (auto simp: page_inv_defs validate_submission_def postDisabled_def handleWriteReview_def)

theorem post_click_refines_validator_witness:
  "page_reachable scenario_ctx (page_run scenario_ctx (butlast scenario_events) (initial_page_state :: nat page_state)) \<and>
   showWriteReview (page_run scenario_ctx (butlast scenario_events) (initial_page_state :: nat page_state)) \<and>
   posted (dispatch scenario_ctx PostClick (page_run scenario_ctx (butlast scenario_events) (initial_page_state :: nat page_state)))
     = [(''c1'', scenario_draft)]"
proof -
  let ?st = "page_run scenario_ctx (butlast scenario_events) (initial_page_state :: nat page_state)"
  have reach: "page_reachable scenario_ctx ?st"
    by (rule page_reachable_run [OF page_reachable.init])
  have open_: "showWriteReview ?st" by (simp add: page_eval)
  have "posted (dispatch scenario_ctx PostClick ?st) = [(''c1'', scenario_draft)]"
    using post_click_refines_validator [OF reach open_] by (simp add: page_eval)
  with reach open_ show ?thesis by simp
qed

text \<open>
  C3. In every reachable state the draft's rating is in \<open>[1, 5]\<close>, the draft holds at most
  three photos, the selected complaint is empty or one the user may review, and the modal is
  open only when the user has an eligible complaint.
\<close>

theorem page_state_invariant:
  assumes "page_reachable ctx st"
  shows "1 \<le> draft_rating (newReview st) \<and> draft_rating (newReview st) \<le> 5 \<and>
         length (draft_photos (newReview st)) \<le> 3 \<and>
         (selectedComplaint st = [] \<or> selectedComplaint st \<in> complaint_id ` set (page_eligible ctx)) \<and>
         (showWriteReview st \<longrightarrow> page_eligible ctx \<noteq> [])"
  using page_reachable_inv [OF assms]
  by (auto simp: page_inv_defs writeReviewButtonShown_def)

theorem page_state_invariant_witness:
  "page_reachable scenario_ctx (page_run scenario_ctx [WriteReviewClick, StarClick 3, PhotoInput [1, 2, 3, 4]] (initial_page_state :: nat page_state)) \<and>
   draft_rating (newReview (page_run scenario_ctx [WriteReviewClick, StarClick 3, PhotoInput [1, 2, 3, 4]] (initial_page_state :: nat page_state))) = 3 \<and>
   page_eligible scenario_ctx \<noteq> []"
proof -
  let ?st = "page_run scenario_ctx [WriteReviewClick, StarClick 3, PhotoInput [1, 2, 3, 4]] (initial_page_state :: nat page_state)"
  have reach: "page_reachable scenario_ctx ?st"
    by (rule page_reachable_run [OF page_reachable.init])
  have open_: "showWriteReview ?st" by (simp add: page_eval)
  have "page_eligible scenario_ctx \<noteq> []"
    using page_state_invariant [OF reach] open_ by blast
  moreover have "draft_rating (newReview ?st) = 3" by (simp add: page_eval)
  ultimately show ?thesis using reach by simp
qed

text \<open>
  C4. Attaching photos appends the selected files and keeps the first three: the draft's
  photos stay a prefix of the new list, the files that fit are kept in selection order,
  and the rest are dropped without an error.
\<close>

theorem photo_upload_cap:
  assumes "length (draft_photos (newReview st)) \<le> 3"
  shows "prefix (draft_photos (newReview st)) (draft_photos (newReview (handlePhotoUpload fs st))) \<and>
         prefix (draft_photos (newReview (handlePhotoUpload fs st))) (draft_photos (newReview st) @ fs) \<and>
         length (draft_photos (newReview (handlePhotoUpload fs st))) =
           min 3 (length (draft_photos (newReview st)) + length fs)"
  using assms by (simp add: handlePhotoUpload_def take_is_prefix)

theorem photo_upload_cap_witness:
  "length (draft_photos (newReview (initial_page_state :: nat page_state))) \<le> 3 \<and>
   draft_photos (newReview (handlePhotoUpload [1, 2, 3, 4] (initial_page_state :: nat page_state))) = [1, 2, 3]"
proof -
  have h: "length (draft_photos (newReview (initial_page_state :: nat page_state))) \<le> 3"
    by (simp add: initial_page_state_def empty_draft_def)
  have "prefix (draft_photos (newReview (handlePhotoUpload [1, 2, 3, 4] (initial_page_state :: nat page_state)))) [1, 2, 3, 4] \<and>
        length (draft_photos (newReview (handlePhotoUpload [1, 2, 3, 4] (initial_page_state :: nat page_state)))) = 3"
    using photo_upload_cap [OF h, of "[1, 2, 3, 4]"] by (simp add: initial_page_state_def empty_draft_def)
  then have "draft_photos (newReview (handlePhotoUpload [1, 2, 3, 4] (initial_page_state :: nat page_state))) = [1, 2, 3]"
    by (simp add: handlePhotoUpload_def initial_page_state_def empty_draft_def)
  with h show ?thesis by simp
qed

text \<open>
  C19. Posting stays possible: from every state of the page, a signed-in user with an
  eligible complaint can post a review of it, with any title and description that are not
  blank, by opening the form, choosing the complaint, typing both fields and clicking Post;
  the review posted carries the draft's rating and photos.
\<close>

theorem review_always_postable:
  assumes "c \<in> set (map complaint_id (page_eligible ctx))" and "c \<noteq> []"
    and "js_trim t \<noteq> []" and "js_trim x \<noteq> []"
  shows "posted (page_run ctx [WriteReviewClick, ComplaintSelect c, TitleInput t, ContentInput x, PostClick] st) =
           posted st @ [(c, (newReview st)\<lparr>draft_title := t, draft_content := x\<rparr>)]"
proof -
  have "writeReviewButtonShown ctx"
    using assms(1) by (auto simp: writeReviewButtonShown_def)
  moreover have "c \<in> set (complaintOptions ctx)"
    using assms(1) by (simp add: complaintOptions_def)
  ultimately show ?thesis
    using assms(2-4)
    by (simp add: page_run_def onTitleChange_def onContentChange_def postDisabled_def handleWriteReview_def)
qed

theorem review_always_postable_witness:
  "posted (page_run scenario_ctx [WriteReviewClick, ComplaintSelect ''c1'', TitleInput ''Great'', ContentInput ''Fixed fast'', PostClick]
      (initial_page_state :: nat page_state)) = [(''c1'', scenario_draft)]"
proof -
  have "''c1'' \<in> set (map complaint_id (page_eligible scenario_ctx))"
    by (simp add: page_eval)
  moreover have "js_trim ''Great'' \<noteq> []" and "js_trim ''Fixed fast'' \<noteq> []"
    by (simp_all add: page_eval)
  ultimately show ?thesis
    using review_always_postable [of "''c1''" scenario_ctx "''Great''" "''Fixed fast''" "initial_page_state :: nat page_state"]
    by (simp add: initial_page_state_def empty_draft_def scenario_draft_def)
qed

end
