(* ===== verification/Stats.thy ===== *)
theory Stats
  imports Review_Model
begin

text \<open>
  The aggregation engine of the community page (\<open>communityStats\<close>, \<open>CommunityPage.tsx\<close>
  lines 233--238): the number of reviews, the mean rating (a JavaScript division, so
  \<open>NaN\<close> on an empty list), the number of reviews with more helpful than unhelpful votes,
  and the number of distinct categories (\<open>[...new Set(...)].length\<close>). The sum is the
  \<open>reduce\<close> of the source, a left fold from \<open>0\<close>.
\<close>

record community_stats =
  totalReviews :: nat
  averageRating :: js_num
  helpfulReviews :: nat
  categories :: nat

definition communityStats :: "review list \<Rightarrow> community_stats" where
  "communityStats reviews =
     \<lparr>totalReviews = length reviews,
      averageRating =
        js_div (real_of_int (foldl (\<lambda>sum r. sum + rating r) 0 reviews)) (real (length reviews)),
      helpfulReviews = length (filter (\<lambda>r. helpful r > notHelpful r) reviews),
      categories = length (js_set_values (map category reviews))\<rparr>"

text \<open>
  The four statistics cards (lines 248--297) print, in order, the review count, the mean
  rating with \<open>toFixed(1)\<close>, the helpful count and the category count; a number in JSX
  is printed with \<open>Number::toString\<close>.
\<close>

definition statsCards :: "community_stats \<Rightarrow> string list" where
  "statsCards s =
     [decimal_string (totalReviews s), js_toFixed1 (averageRating s),
      decimal_string (helpfulReviews s), decimal_string (categories s)]"

lemma foldl_rating_sum: "foldl (\<lambda>sum r. sum + rating r) a rs = a + sum_list (map rating rs)"
  by (induction rs arbitrary: a) (simp_all add: algebra_simps)

lemma communityStats_average:
  "averageRating (communityStats rs) =
     (if rs = [] then JsNaN
      else JsNum (real_of_int (sum_list (map rating rs)) / real (length rs)))"
  by (simp add: communityStats_def foldl_rating_sum)

lemma communityStats_categories:
  "categories (communityStats rs) = card (category ` set rs)"
  by (simp add: communityStats_def js_set_values_length)

lemma sum_list_bounds:
  fixes f :: "'a \<Rightarrow> int"
  assumes "\<forall>x \<in> set xs. lo \<le> f x \<and> f x \<le> hi"
  shows "int (length xs) * lo \<le> sum_list (map f xs) \<and> sum_list (map f xs) \<le> int (length xs) * hi"
  using assms by (induction xs) (auto simp: algebra_simps)

section \<open>Properties\<close>

text \<open>
  C10. The statistics are the count of the reviews, the mean of their ratings (\<open>NaN\<close> for
  no review), the number of reviews with more helpful than unhelpful votes, and the number
  of distinct categories.
\<close>

theorem communityStats_contract:
  "totalReviews (communityStats rs) = length rs \<and>
   averageRating (communityStats rs) =
     (if rs = [] then JsNaN else JsNum ((\<Sum>r \<leftarrow> rs. real_of_int (rating r)) / real (length rs))) \<and>
   helpfulReviews (communityStats rs) = size (filter_mset (\<lambda>r. notHelpful r < helpful r) (mset rs)) \<and>
   categories (communityStats rs) = card (category ` set rs)"
  by (simp add: communityStats_def foldl_rating_sum js_div_def js_set_values_length o_def
      flip: mset_filter sum_list_of_int)

text \<open>
  C11. When every rating is in \<open>[1, 5]\<close> and there is a review, the mean rating is a number in
  \<open>[1, 5]\<close>; the helpful count and the number of categories never exceed the number of
  reviews, and there is a category as soon as there is a review.
\<close>

theorem communityStats_bounds:
  assumes "\<forall>r \<in> set rs. 1 \<le> rating r \<and> rating r \<le> 5" and "rs \<noteq> []"
  shows "(\<exists>a. averageRating (communityStats rs) = JsNum a \<and> 1 \<le> a \<and> a \<le> 5) \<and>
         helpfulReviews (communityStats rs) \<le> totalReviews (communityStats rs) \<and>
         1 \<le> categories (communityStats rs) \<and>
         categories (communityStats rs) \<le> totalReviews (communityStats rs)"
proof -
  let ?n = "int (length rs)" and ?s = "sum_list (map rating rs)"
  have b: "?n * 1 \<le> ?s \<and> ?s \<le> ?n * 5"
    using sum_list_bounds [where xs = rs and f = rating and lo = 1 and hi = 5] assms(1) by simp
  have n: "0 < real (length rs)" using assms(2) by simp
  have lo: "1 \<le> real_of_int ?s / real (length rs)"
    using b n by (simp add: le_divide_eq)
  have hi: "real_of_int ?s / real (length rs) \<le> 5"
    using b n by (simp add: divide_le_eq)
  have avg: "\<exists>a. averageRating (communityStats rs) = JsNum a \<and> 1 \<le> a \<and> a \<le> 5"
    using lo hi assms(2) by (simp add: communityStats_average)
  have "card (category ` set rs) \<le> length rs"
    by (metis card_image_le card_length finite_set order_trans)
  moreover have "1 \<le> card (category ` set rs)"
    using assms(2) by (simp add: Suc_le_eq card_gt_0_iff)
  ultimately show ?thesis
    using avg by (simp add: communityStats_categories) (simp add: communityStats_def)
qed

theorem communityStats_bounds_witness:
  "list_all (\<lambda>r. 1 \<le> rating r \<and> rating r \<le> 5) mockReviews \<and> mockReviews \<noteq> [] \<and>
   (\<exists>a. averageRating (communityStats mockReviews) = JsNum a \<and> 1 \<le> a \<and> a \<le> 5)"
proof -
  have h1: "\<forall>r \<in> set mockReviews. 1 \<le> rating r \<and> rating r \<le> 5" by (simp add: mockReviews_def)
  have h2: "mockReviews \<noteq> []" by (simp add: mockReviews_def)
  show ?thesis using communityStats_bounds [OF h1 h2] h1 h2 by (simp add: list_all_iff)
qed

text \<open>
  C18. The "Average Rating" card prints the mean rounded to one decimal: for ratings in
  \<open>[1, 5]\<close> and at least one review it is a digit, a point and a digit, its value
  \<open>n / 10\<close> lies within \<open>0.05\<close> of the mean and between 1.0 and 5.0.
\<close>

theorem average_card_rounding:
  assumes "\<forall>r \<in> set rs. 1 \<le> rating r \<and> rating r \<le> 5" and "rs \<noteq> []"
  shows "\<exists>n. statsCards (communityStats rs) ! 1 =
               [digit_char (n div 10), CHR ''.'', digit_char (n mod 10)] \<and>
             10 \<le> n \<and> n \<le> 50 \<and>
             \<bar>real n / 10 - real_of_int (sum_list (map rating rs)) / real (length rs)\<bar> \<le> 1 / 20"
proof -
  let ?x = "real_of_int (sum_list (map rating rs)) / real (length rs)"
  let ?n = "nat \<lfloor>10 * \<bar>?x\<bar> + 1 / 2\<rfloor>"
  have b: "int (length rs) * 1 \<le> sum_list (map rating rs) \<and> sum_list (map rating rs) \<le> int (length rs) * 5"
    using sum_list_bounds [where xs = rs and f = rating and lo = 1 and hi = 5] assms(1) by simp
  have len: "0 < real (length rs)" using assms(2) by simp
  have lo: "1 \<le> ?x" using b len by (simp add: le_divide_eq)
  have hi: "?x \<le> 5" using b len by (simp add: divide_le_eq)
  let ?k = "\<lfloor>10 * ?x + 1 / 2\<rfloor>"
  have absx: "\<bar>?x\<bar> = ?x" by (rule abs_of_nonneg) (use lo in linarith)
  have k_lo: "(10::int) \<le> ?k" using lo by (simp add: le_floor_iff)
  have k_hi: "?k \<le> (50::int)" using hi by (simp add: floor_le_iff)
  have n_eq: "?n = nat ?k" by (simp only: absx)
  have n_lo: "10 \<le> ?n" unfolding n_eq using k_lo by (metis nat_mono nat_numeral)
  have n_hi: "?n \<le> 50" unfolding n_eq using k_hi by (metis nat_mono nat_numeral)
  have xpos: "\<not> ?x < 0" using lo by linarith
  have "\<bar>real ?n / 10 - ?x\<bar> \<le> 1 / 20"
    unfolding absx by (rule round_tenth_close) (use lo in linarith)
  moreover have "statsCards (communityStats rs) ! 1 =
      [digit_char (?n div 10), CHR ''.'', digit_char (?n mod 10)]"
    using n_lo n_hi xpos assms(2)
    by (simp add: statsCards_def communityStats_average js_toFixed1_def decimal_string_two_digits Let_def)
  ultimately show ?thesis using n_lo n_hi by blast
qed

theorem average_card_rounding_witness:
  "statsCards (communityStats mockReviews) ! 1 = ''4.4''"
proof -
  have h1: "\<forall>r \<in> set mockReviews. 1 \<le> rating r \<and> rating r \<le> 5" by (simp add: mockReviews_def)
  have h2: "mockReviews \<noteq> []" by (simp add: mockReviews_def)
  have "\<exists>n. statsCards (communityStats mockReviews) ! 1 =
               [digit_char (n div 10), CHR ''.'', digit_char (n mod 10)] \<and> 10 \<le> n \<and> n \<le> 50 \<and>
             \<bar>real n / 10 - real_of_int (sum_list (map rating mockReviews)) / real (length mockReviews)\<bar> \<le> 1 / 20"
    by (rule average_card_rounding [OF h1 h2])
  moreover have "statsCards (communityStats mockReviews) ! 1 = ''4.4''"
    by (simp add: statsCards_def communityStats_def mockReviews_def js_toFixed1_def floor_eq_iff
        decimal_string_small decimal_string_large digit_char_def char_of_eq_iff)
  ultimately show ?thesis by blast
qed

end
