(* ===== verification/Render.thy ===== *)
theory Render
  imports Query
begin

text \<open>
  What the community page renders from its state (\<open>CommunityPage.tsx\<close>): the star row
  (\<open>renderStars\<close>, lines 212--231, also used by the rating buttons of the modal, lines
  352--356), one card per shown review (lines 500--583) and, when no review is shown, a
  message that depends on whether a filter is active (lines 584--595). Class names, icons
  and sizes are presentation and not modelled; a card keeps every value it prints.
\<close>

definition renderStars :: "int \<Rightarrow> bool list" where
  "renderStars r = map (\<lambda>star. star \<le> r) [1, 2, 3, 4, 5]"

record review_card =
  card_avatar :: "string option" \<comment> \<open>the avatar image, or the placeholder icon (\<open>''\<close> is falsy)\<close>
  card_title :: string
  card_stars :: "bool list"
  card_author :: string
  card_date :: timestamp \<comment> \<open>printed with \<open>toLocaleDateString()\<close>, whose text depends on the locale\<close>
  card_location :: string
  card_category :: string
  card_provider :: string
  card_content :: string
  card_photos :: "string list" \<comment> \<open>the photo strip, absent when there is no photo\<close>
  card_helpful :: int
  card_not_helpful :: int
  card_vote_total :: int \<comment> \<open>"... people found this review helpful"\<close>

datatype list_view = Cards "review_card list" | NoReviews string

definition renderReviewCard :: "review \<Rightarrow> review_card" where
  "renderReviewCard r =
     \<lparr>card_avatar = (case userAvatar r of Some a \<Rightarrow> if a = [] then None else Some a | None \<Rightarrow> None),
      card_title = title r, card_stars = renderStars (rating r),
      card_author = userName r, card_date = createdAt r, card_location = location r,
      card_category = category r, card_provider = serviceProvider r, card_content = content r,
      card_photos = (case photos r of Some ps \<Rightarrow> if 0 < length ps then ps else [] | None \<Rightarrow> []),
      card_helpful = helpful r, card_not_helpful = notHelpful r,
      card_vote_total = helpful r + notHelpful r\<rparr>"

definition emptyListMessage :: "'a review_query_scheme \<Rightarrow> string" where
  "emptyListMessage q =
     (if searchTerm q \<noteq> [] \<or> categoryFilter q \<noteq> ''all'' \<or> ratingFilter q \<noteq> ''all''
      then ''No reviews match your current filters.''
      else ''Be the first to share your experience with the community!'')"

definition renderReviewList :: "'a review_query_scheme \<Rightarrow> review list \<Rightarrow> list_view" where
  "renderReviewList q reviews =
     (if 0 < length (sortedReviews q reviews) then Cards (map renderReviewCard (sortedReviews q reviews))
      else NoReviews (emptyListMessage q))"

lemma renderStars_count:
  assumes "0 \<le> r" and "r \<le> 5"
  shows "renderStars r = replicate (nat r) True @ replicate (5 - nat r) False"
proof -
  have "r \<in> {0, 1, 2, 3, 4, 5}" using assms by auto
  then show ?thesis by (auto simp: renderStars_def numeral_eq_Suc)
qed

section \<open>Properties\<close>

text \<open>
  C12. For a rating in \<open>[1, 5]\<close> the star row has exactly that many filled stars, first,
  followed by empty ones, five in all.
\<close>

theorem renderStars_filled:
  assumes "1 \<le> r" and "r \<le> 5"
  shows "renderStars r = replicate (nat r) True @ replicate (5 - nat r) False \<and>
         length (filter id (renderStars r)) = nat r"
  using renderStars_count [of r] assms by simp

theorem renderStars_filled_witness:
  "renderStars 4 = [True, True, True, True, False] \<and> length (filter id (renderStars 4)) = 4"
  using renderStars_filled [of 4] by (simp add: numeral_eq_Suc)

text \<open>
  C13. The list shows the message exactly when no review passes the three filters, and then
  the message that matches the filter state; otherwise it shows one card per sorted review,
  in order, and the cards are those of the filtered reviews.
\<close>

theorem renderReviewList_cases:
  "(case renderReviewList q rs of
      NoReviews m \<Rightarrow>
        m = emptyListMessage q \<and>
        (\<forall>r \<in> set rs. \<not> (matchesSearch q r \<and> matchesCategory q r \<and> matchesRating q r))
    | Cards cs \<Rightarrow>
        cs \<noteq> [] \<and> cs = map renderReviewCard (sortedReviews q rs) \<and>
        mset cs = mset (map renderReviewCard (filteredReviews q rs)))"
proof -
  have m: "mset (sortedReviews q rs) = mset (filteredReviews q rs)"
    by (simp add: sortedReviews_sort_key)
  show ?thesis
  proof (cases "sortedReviews q rs = []")
    case True
    then have "filteredReviews q rs = []" using m by (metis mset_zero_iff)
    with True show ?thesis
      by (simp add: renderReviewList_def filteredReviews_def filter_empty_conv)
  next
    case False
    have "mset (map renderReviewCard (sortedReviews q rs)) = mset (map renderReviewCard (filteredReviews q rs))"
      using m by (simp add: mset_map)
    with False show ?thesis by (simp add: renderReviewList_def)
  qed
qed

theorem renderReviewList_cases_witness:
  "renderReviewList (initial_query\<lparr>ratingFilter := ''4''\<rparr>) mockReviews = Cards [renderReviewCard (mockReviews ! 1)]"
proof -
  have "case renderReviewList (initial_query\<lparr>ratingFilter := ''4''\<rparr>) mockReviews of
          NoReviews m \<Rightarrow> m = emptyListMessage (initial_query\<lparr>ratingFilter := ''4''\<rparr>) \<and>
            (\<forall>r \<in> set mockReviews. \<not> (matchesSearch (initial_query\<lparr>ratingFilter := ''4''\<rparr>) r \<and>
               matchesCategory (initial_query\<lparr>ratingFilter := ''4''\<rparr>) r \<and>
               matchesRating (initial_query\<lparr>ratingFilter := ''4''\<rparr>) r))
        | Cards cs \<Rightarrow> cs \<noteq> [] \<and>
            cs = map renderReviewCard (sortedReviews (initial_query\<lparr>ratingFilter := ''4''\<rparr>) mockReviews) \<and>
            mset cs = mset (map renderReviewCard (filteredReviews (initial_query\<lparr>ratingFilter := ''4''\<rparr>) mockReviews))"
    by (rule renderReviewList_cases)
  moreover have "sortedReviews (initial_query\<lparr>ratingFilter := ''4''\<rparr>) mockReviews = [mockReviews ! 1]"
    by (simp add: sortedReviews_sort_key filteredReviews_def matchesRating_def initial_query_def
        mockReviews_def)
  ultimately show ?thesis by (simp add: renderReviewList_def)
qed

end
