(* ===== verification/Community_View.thy ===== *)
theory Community_View
  imports Write_Review Stats Render
begin

text \<open>
  The community page as a whole (\<open>CommunityPage.tsx\<close>, the JSX of lines 240--601): the
  heading, the four statistics cards, the "Write a Review" button, the modal while it is
  open, the filter bar and the review list, each computed from the page's context and
  state. The modal (lines 311--437) is a controlled form: the complaint select shows
  \<open>selectedComplaint\<close> among a placeholder option and one option per eligible complaint
  labelled "title - address", the star buttons show the draft's rating, the counter
  prints the number of photos out of three, and Post is enabled unless the draft is
  incomplete. Class names and icons are not modelled.
\<close>

record modal_view =
  modal_options :: "(string \<times> string) list" \<comment> \<open>value and label of each option\<close>
  modal_selected :: string
  modal_stars :: "bool list"
  modal_title :: string
  modal_content :: string
  modal_photo_counter :: string
  modal_post_enabled :: bool

definition complaintOptionLabels :: "page_ctx \<Rightarrow> (string \<times> string) list" where
  "complaintOptionLabels ctx =
     ([], ''Choose a complaint to review'') #
     map (\<lambda>c. (complaint_id c, complaint_title c @ '' - '' @ complaint_address c)) (page_eligible ctx)"

definition renderModal :: "page_ctx \<Rightarrow> 'p page_state \<Rightarrow> modal_view option" where
  "renderModal ctx st =
     (if showWriteReview st then
        Some \<lparr>modal_options = complaintOptionLabels ctx,
              modal_selected = selectedComplaint st,
              modal_stars = renderStars (draft_rating (newReview st)),
              modal_title = draft_title (newReview st),
              modal_content = draft_content (newReview st),
              modal_photo_counter = decimal_string (length (draft_photos (newReview st))) @ ''/3 photos'',
              modal_post_enabled = \<not> postDisabled st\<rparr>
      else None)"

record community_view =
  cv_heading :: "string \<times> string"
  cv_stats :: "string list"
  cv_write_button :: bool
  cv_modal :: "modal_view option"
  cv_filters :: "string \<times> string \<times> string \<times> string" \<comment> \<open>search, category, rating, sort\<close>
  cv_list :: list_view

definition communityView :: "page_ctx \<Rightarrow> 'p page_state \<Rightarrow> community_view" where
  "communityView ctx st =
     \<lparr>cv_heading = (''Community Reviews'', ''Share your experience and help improve public services''),
      cv_stats = statsCards (communityStats (page_reviews ctx)),
      cv_write_button = writeReviewButtonShown ctx,
      cv_modal = renderModal ctx st,
      cv_filters = (searchTerm st, categoryFilter st, ratingFilter st, sortBy st),
      cv_list = renderReviewList st (page_reviews ctx)\<rparr>"

section \<open>Lemmas\<close>

lemma complaintOptionLabels_values: "map fst (complaintOptionLabels ctx) = complaintOptions ctx"
  by (simp add: complaintOptionLabels_def complaintOptions_def comp_def)

text \<open>
  In every reachable state the rendered page is consistent: the modal is open only while
  the button that opens it is shown, the controlled select's value is one of its options,
  the star row shows a rating in \<open>[1, 5]\<close>, and the photo counter never reads more than
  three.
\<close>

lemma communityView_modal_consistent:
  assumes "page_reachable ctx st" and "cv_modal (communityView ctx st) = Some m"
  shows "cv_write_button (communityView ctx st) \<and>
         modal_selected m \<in> set (map fst (modal_options m)) \<and>
         (\<exists>r \<in> {1..5}. modal_stars m = replicate (nat r) True @ replicate (5 - nat r) False) \<and>
         modal_photo_counter m \<in> {''0/3 photos'', ''1/3 photos'', ''2/3 photos'', ''3/3 photos''}"
proof -
  have inv: "page_inv ctx st" by (rule page_reachable_inv [OF assms(1)])
  have open_: "showWriteReview st" and m: "m = the (renderModal ctx st)"
    using assms(2) by (simp_all add: communityView_def renderModal_def split: if_splits)
  let ?d = "newReview st"
  have r: "1 \<le> draft_rating ?d" "draft_rating ?d \<le> 5" and p: "length (draft_photos ?d) \<le> 3"
    using inv by (simp_all add: page_inv_def draft_ok_def)
  have "length (draft_photos ?d) = 0 \<or> length (draft_photos ?d) = 1 \<or>
        length (draft_photos ?d) = 2 \<or> length (draft_photos ?d) = 3"
    using p by arith
  then have "decimal_string (length (draft_photos ?d)) @ ''/3 photos'' \<in>
               {''0/3 photos'', ''1/3 photos'', ''2/3 photos'', ''3/3 photos''}"
    by (auto simp: js_simps digit_char_def char_of_eq_iff)
  moreover have "renderStars (draft_rating ?d) =
      replicate (nat (draft_rating ?d)) True @ replicate (5 - nat (draft_rating ?d)) False"
    using r by (simp add: renderStars_count)
  moreover have "writeReviewButtonShown ctx" and "selectedComplaint st \<in> set (complaintOptions ctx)"
    using inv open_ by (simp_all add: page_inv_def)
  ultimately show ?thesis
    using open_ m r
    by (auto simp: communityView_def renderModal_def complaintOptionLabels_values)
qed

lemma communityView_modal_scenario:
  "renderModal scenario_ctx (page_run scenario_ctx (butlast scenario_events) (initial_page_state :: nat page_state)) =
     Some \<lparr>modal_options = [([], ''Choose a complaint to review''), (''c1'', ''Pothole - Main Street'')],
           modal_selected = ''c1'', modal_stars = [True, True, True, True, True],
           modal_title = ''Great'', modal_content = ''Fixed fast'',
           modal_photo_counter = ''0/3 photos'', modal_post_enabled = True\<rparr>"
  by (simp add: renderModal_def complaintOptionLabels_def renderStars_def page_eval js_simps digit_char_def char_of_eq_iff)

end
