(* ===== verification/Text_Encoding.thy ===== *)
theory Text_Encoding
  imports JS_Prelude
begin

text \<open>
  Text outside ASCII. A JavaScript string is a list of UTF-16 code units, here a
  \<open>nat list\<close>; every non-ASCII character the pages hold is in the Basic Multilingual Plane,
  so a code unit is a code point. Two encodings explain the text the landing page holds:
  UTF-8 (\<open>utf8_encode\<close>, with the decoder \<open>utf8_decode\<close>) and Mac OS Roman, the
  single-byte encoding whose upper half is \<open>mac_roman_table\<close>. \<open>mojibake\<close> is what a text
  becomes when its UTF-8 bytes are read back as Mac OS Roman, and \<open>recover_text\<close> undoes
  it; the lemmas show that it does so for every text.
\<close>

section \<open>UTF-8\<close>

definition utf8_encode :: "nat \<Rightarrow> nat list" where
  "utf8_encode c =
     (if c < 0x80 then [c]
      else if c < 0x800 then [0xC0 + c div 64, 0x80 + c mod 64]
      else if c < 0x10000 then [0xE0 + c div 4096, 0x80 + c div 64 mod 64, 0x80 + c mod 64]
      else [0xF0 + c div 262144, 0x80 + c div 4096 mod 64, 0x80 + c div 64 mod 64, 0x80 + c mod 64])"

definition utf8_len :: "nat \<Rightarrow> nat" where
  "utf8_len b =
     (if b < 0x80 then 1 else if 0xC0 \<le> b \<and> b < 0xE0 then 2
      else if 0xE0 \<le> b \<and> b < 0xF0 then 3 else if 0xF0 \<le> b \<and> b < 0xF8 then 4 else 0)"

definition utf8_lead :: "nat \<Rightarrow> nat" where
  "utf8_lead b = b - (if b < 0x80 then 0 else if b < 0xE0 then 0xC0 else if b < 0xF0 then 0xE0 else 0xF0)"

definition utf8_cont :: "nat \<Rightarrow> bool" where
  "utf8_cont b \<longleftrightarrow> 0x80 \<le> b \<and> b < 0xC0"

function utf8_decode :: "nat list \<Rightarrow> nat list option" where
  "utf8_decode bs =
     (case bs of
        [] \<Rightarrow> Some []
      | b # rest \<Rightarrow>
          (if utf8_len b = 0 \<or> length rest < utf8_len b - 1 \<or>
              \<not> list_all utf8_cont (take (utf8_len b - 1) rest) then None
           else map_option
                  (Cons (foldl (\<lambda>acc c. acc * 64 + (c - 0x80)) (utf8_lead b) (take (utf8_len b - 1) rest)))
                  (utf8_decode (drop (utf8_len b - 1) rest))))"
  by pat_completeness auto
termination
  by (relation "measure length") auto

declare utf8_decode.simps [simp del]

section \<open>Mac OS Roman\<close>

definition mac_roman_table :: "nat list" where
  "mac_roman_table = [
     196, 197, 199, 201, 209, 214, 220, 225, 224, 226, 228, 227, 229, 231, 233, 232,
     234, 235, 237, 236, 238, 239, 241, 243, 242, 244, 246, 245, 250, 249, 251, 252,
     8224, 176, 162, 163, 167, 8226, 182, 223, 174, 169, 8482, 180, 168, 8800, 198, 216,
     8734, 177, 8804, 8805, 165, 181, 8706, 8721, 8719, 960, 8747, 170, 186, 937, 230, 248,
     191, 161, 172, 8730, 402, 8776, 8710, 171, 187, 8230, 160, 192, 195, 213, 338, 339,
     8211, 8212, 8220, 8221, 8216, 8217, 247, 9674, 255, 376, 8260, 8364, 8249, 8250, 64257, 64258,
     8225, 183, 8218, 8222, 8240, 194, 202, 193, 203, 200, 205, 206, 207, 204, 211, 212,
     63743, 210, 218, 219, 217, 305, 710, 732, 175, 728, 729, 730, 184, 733, 731, 711]"

definition mac_roman_decode :: "nat \<Rightarrow> nat" where
  "mac_roman_decode b = (if b < 128 then b else mac_roman_table ! (b - 128))"

fun position :: "nat \<Rightarrow> nat list \<Rightarrow> nat option" where
  "position x [] = None"
| "position x (y # ys) = (if x = y then Some 0 else map_option Suc (position x ys))"

definition mac_roman_encode :: "nat \<Rightarrow> nat option" where
  "mac_roman_encode u = (if u < 128 then Some u else map_option (\<lambda>i. 128 + i) (position u mac_roman_table))"

fun all_some :: "'a option list \<Rightarrow> 'a list option" where
  "all_some [] = Some []"
| "all_some (x # xs) = Option.bind x (\<lambda>y. map_option (Cons y) (all_some xs))"

section \<open>Mojibake\<close>

definition mojibake :: "nat list \<Rightarrow> nat list" where
  "mojibake cps = map mac_roman_decode (concat (map utf8_encode cps))"

definition recover_text :: "nat list \<Rightarrow> nat list option" where
  "recover_text s = Option.bind (all_some (map mac_roman_encode s)) utf8_decode"

section \<open>Lemmas\<close>

lemma utf8_decode_Nil [simp]: "utf8_decode [] = Some []"
  by (simp add: utf8_decode.simps)

lemma utf8_decode_step:
  assumes "utf8_len b = Suc (length cs)" and "list_all utf8_cont cs"
  shows "utf8_decode (b # cs @ rest) =
           map_option (Cons (foldl (\<lambda>acc c. acc * 64 + (c - 0x80)) (utf8_lead b) cs)) (utf8_decode rest)"
  using assms by (simp add: utf8_decode.simps [of "b # cs @ rest"])

lemma div_64_64: "(n::nat) div 64 div 64 = n div 4096"
  by (simp add: div_mult2_eq [symmetric])

lemma div_4096_64: "(n::nat) div 4096 div 64 = n div 262144"
  by (simp add: div_mult2_eq [symmetric])

lemma div_64_recompose:
  "(n::nat) div 4096 * 64 + n div 64 mod 64 = n div 64"
  "(n::nat) div 262144 * 64 + n div 4096 mod 64 = n div 4096"
  by (metis div_mult_mod_eq div_64_64, metis div_mult_mod_eq div_4096_64)

lemma utf8_decode_encode:
  assumes "c < 0x110000"
  shows "utf8_decode (utf8_encode c @ rest) = map_option (Cons c) (utf8_decode rest)"
proof -
  have m: "(n::nat) div 64 * 64 + n mod 64 = n" for n by simp
  consider "c < 0x80" | "0x80 \<le> c" "c < 0x800" | "0x800 \<le> c" "c < 0x10000" | "0x10000 \<le> c"
    by linarith
  then show ?thesis
  proof cases
    case 1
    then show ?thesis
      using utf8_decode_step [of c "[]" rest] by (simp add: utf8_encode_def utf8_len_def utf8_lead_def)
  next
    case 2
    then have "2 \<le> c div 64" "c div 64 < 32"
      using div_le_mono [of 128 c 64] less_mult_imp_div_less [of c 32 64] by simp_all
    with 2 show ?thesis
      using utf8_decode_step [of "0xC0 + c div 64" "[0x80 + c mod 64]" rest]
      by (simp add: utf8_encode_def utf8_len_def utf8_lead_def utf8_cont_def m)
  next
    case 3
    then have "c div 4096 < 16" using less_mult_imp_div_less [of c 16 4096] by simp
    with 3 show ?thesis
      using utf8_decode_step [of "0xE0 + c div 4096" "[0x80 + c div 64 mod 64, 0x80 + c mod 64]" rest]
      by (simp add: utf8_encode_def utf8_len_def utf8_lead_def utf8_cont_def m div_64_recompose)
  next
    case 4
    have "c div 262144 < 5" using assms less_mult_imp_div_less [of c 5 262144] by simp
    with 4 show ?thesis
      using utf8_decode_step [of "0xF0 + c div 262144"
          "[0x80 + c div 4096 mod 64, 0x80 + c div 64 mod 64, 0x80 + c mod 64]" rest]
      by (simp add: utf8_encode_def utf8_len_def utf8_lead_def utf8_cont_def m div_64_recompose)
  qed
qed


lemma utf8_decode_concat:
  "list_all (\<lambda>c. c < 0x110000) cps \<Longrightarrow> utf8_decode (concat (map utf8_encode cps)) = Some cps"
  by (induction cps) (simp_all add: utf8_decode_encode)

lemma utf8_encode_bytes: "c < 0x110000 \<Longrightarrow> list_all (\<lambda>b. b < 256) (utf8_encode c)"
proof -
  assume "c < 0x110000"
  then have "c div 262144 < 5" using less_mult_imp_div_less [of c 5 262144] by simp
  moreover have "c < 0x10000 \<Longrightarrow> c div 4096 < 16" using less_mult_imp_div_less [of c 16 4096] by simp
  moreover have "c < 0x800 \<Longrightarrow> c div 64 < 32" using less_mult_imp_div_less [of c 32 64] by simp
  moreover have "n mod 64 < 128" for n :: nat using mod_less_divisor [of 64 n] by linarith
  ultimately show ?thesis by (auto simp: utf8_encode_def)
qed

lemma position_nth: "distinct xs \<Longrightarrow> i < length xs \<Longrightarrow> position (xs ! i) xs = Some i"
proof (induction xs arbitrary: i)
  case Nil
  then show ?case by simp
next
  case (Cons y ys)
  then show ?case by (cases i) (auto simp: nth_mem)
qed

lemma mac_roman_table_facts:
  "distinct mac_roman_table \<and> length mac_roman_table = 128 \<and> list_all (\<lambda>u. 128 \<le> u) mac_roman_table"
  by (simp add: mac_roman_table_def)

lemma mac_roman_roundtrip: "b < 256 \<Longrightarrow> mac_roman_encode (mac_roman_decode b) = Some b"
proof (cases "b < 128")
  case True
  then show ?thesis by (simp add: mac_roman_encode_def mac_roman_decode_def)
next
  case False
  assume "b < 256"
  with False have i: "b - 128 < length mac_roman_table" using mac_roman_table_facts by simp
  then have "128 \<le> mac_roman_table ! (b - 128)"
    using mac_roman_table_facts by (simp add: list_all_length)
  with False i show ?thesis
    using position_nth [of mac_roman_table "b - 128"] mac_roman_table_facts
    by (simp add: mac_roman_encode_def mac_roman_decode_def)
qed

lemma all_some_map_Some [simp]: "all_some (map Some xs) = Some xs"
  by (induction xs) simp_all

text \<open>Reading UTF-8 bytes as Mac OS Roman loses nothing: the text can always be recovered.\<close>

lemma recover_mojibake:
  assumes "list_all (\<lambda>c. c < 0x110000) cps"
  shows "recover_text (mojibake cps) = Some cps"
proof -
  let ?bs = "concat (map utf8_encode cps)"
  have "list_all (\<lambda>b. b < 256) ?bs"
    using assms by (induction cps) (simp_all add: utf8_encode_bytes)
  moreover have "list_all (\<lambda>b. b < 256) bs \<Longrightarrow>
      map mac_roman_encode (map mac_roman_decode bs) = map Some bs" for bs
    by (induction bs) (simp_all add: mac_roman_roundtrip)
  ultimately have "map mac_roman_encode (map mac_roman_decode ?bs) = map Some ?bs" by blast
  then show ?thesis
    by (simp add: recover_text_def mojibake_def utf8_decode_concat [OF assms] del: map_map)
qed

end
