(* ===== verification/Home_Page.thy ===== *)
theory Home_Page
  imports Text_Encoding
begin

text \<open>
  The landing page (\<open>src/gggg/project/src/pages/HomePage.tsx\<close>). Its only state is
  \<open>isVisible\<close> and \<open>statsAnimated\<close> (lines 44--45); the effect of lines 47--62 sets
  \<open>isVisible\<close> and (re)registers a scroll listener that starts the statistics animation
  once the statistics section's top is above the bottom of the window. The listener is a
  closure over the \<open>statsAnimated\<close> of the render that registered it: \<open>scroll_listener\<close>
  holds that captured value (\<open>None\<close> before the effect has run), and the effect, which
  React runs again after every change of \<open>statsAnimated\<close>, is an event of its own.
  The data the page renders with logic (statistics, testimonials with their star ratings,
  the partner logos of the marquee, the steps of "How it works") are modelled with every
  field the page prints, the icons included; the logos' literals are code units. The
  other sections and the rendering of the whole page are in \<open>Home_Render\<close>, React's
  scheduling of the effect in \<open>Home_React\<close>.
\<close>

section \<open>State and the scroll effect\<close>

record home_state =
  isVisible :: bool
  statsAnimated :: bool
  scroll_listener :: "bool option"

definition home_initial :: home_state where
  "home_initial = \<lparr>isVisible = False, statsAnimated = False, scroll_listener = None\<rparr>"

datatype home_event =
    EffectRun \<comment> \<open>the effect runs after a render in which \<open>statsAnimated\<close> changed\<close>
  | Scroll "int option" int \<comment> \<open>top of \<open>#stats-section\<close> if present, window height\<close>

definition handleScroll :: "bool \<Rightarrow> int option \<Rightarrow> int \<Rightarrow> home_state \<Rightarrow> home_state" where
  "handleScroll captured sectionTop innerHeight st =
     (case sectionTop of
        None \<Rightarrow> st
      | Some y \<Rightarrow> if y < innerHeight \<and> \<not> captured then st\<lparr>statsAnimated := True\<rparr> else st)"

definition home_effect :: "home_state \<Rightarrow> home_state" where
  "home_effect st = st\<lparr>isVisible := True, scroll_listener := Some (statsAnimated st)\<rparr>"

fun home_step :: "home_event \<Rightarrow> home_state \<Rightarrow> home_state" where
  "home_step EffectRun st = home_effect st"
| "home_step (Scroll y h) st =
     (case scroll_listener st of None \<Rightarrow> st | Some captured \<Rightarrow> handleScroll captured y h st)"

definition home_run :: "home_event list \<Rightarrow> home_state \<Rightarrow> home_state" where
  "home_run evs st = foldl (\<lambda>s e. home_step e s) st evs"

inductive home_reachable :: "home_state \<Rightarrow> bool" where
  init: "home_reachable home_initial"
| step: "home_reachable st \<Longrightarrow> home_reachable (home_step e st)"

text \<open>
  The trigger of the animation, as the spec of the page would put it: some scroll event,
  after the effect has run once, found the section's top above the bottom of the window.
\<close>

fun stats_triggered :: "bool \<Rightarrow> home_event list \<Rightarrow> bool" where
  "stats_triggered mounted [] = False"
| "stats_triggered mounted (EffectRun # evs) = stats_triggered True evs"
| "stats_triggered mounted (Scroll y h # evs) =
     ((mounted \<and> (case y of None \<Rightarrow> False | Some t \<Rightarrow> t < h)) \<or> stats_triggered mounted evs)"

section \<open>Data rendered with logic\<close>

text \<open>
  The icons the page imports from \<open>lucide-react\<close> (lines 3--41), one constructor per
  imported component; a data item or an element that shows an icon holds its constructor.
\<close>

datatype lucide_icon =
    FileText | MapPin | Clock | Shield | Users | CheckCircle | Star | ArrowRight | Phone
  | Mail | Globe | Award | TrendingUp | Zap | Heart | Target | Smartphone | Camera | Bell
  | BarChart3 | MessageSquare | ThumbsUp | Eye | Download | Play | UserPlus | Search
  | Filter | Settings | Lock | Wifi | Database | Cloud | Headphones | Monitor | Layers
  | Compass

record home_stat =
  stat_icon :: lucide_icon
  stat_number :: string
  stat_label :: string
  stat_color :: string

record testimonial =
  t_name :: string
  t_role :: string
  t_content :: string
  t_rating :: int
  t_avatar :: string
  t_location :: string
  t_issueType :: string

record gov_logo =
  logo_name :: string
  logo :: "nat list" \<comment> \<open>the string literal as UTF-16 code units\<close>
  logo_description :: string

record process_step =
  step_icon :: lucide_icon
  step_no :: int
  step_title :: string
  step_description :: string
  step_features :: "string list"

definition stats :: "home_stat list" where
  "stats = [
    \<lparr>stat_icon = CheckCircle, stat_number = ''50,000+'', stat_label = ''Issues Resolved'', stat_color = ''text-green-500''\<rparr>,
    \<lparr>stat_icon = Users, stat_number = ''25,000+'', stat_label = ''Active Citizens'', stat_color = ''text-blue-500''\<rparr>,
    \<lparr>stat_icon = ThumbsUp, stat_number = ''99.2%'', stat_label = ''Satisfaction Rate'', stat_color = ''text-purple-500''\<rparr>,
    \<lparr>stat_icon = Clock, stat_number = ''1.8 days'', stat_label = ''Avg Resolution'', stat_color = ''text-orange-500''\<rparr>]"

definition testimonials :: "testimonial list" where
  "testimonials = [
    \<lparr>t_name = ''Sarah Johnson'', t_role = ''Local Business Owner'',
     t_content = ''The pothole outside my shop was fixed in just 2 days! The entire process was transparent, and I received updates every step of the way. This platform has revolutionized how we interact with city services.'',
     t_rating = 5, t_avatar = ''https://images.pexels.com/photos/774909/pexels-photo-774909.jpeg?auto=compress&cs=tinysrgb&w=150&h=150&fit=crop'', t_location = ''Downtown District'', t_issueType = ''Road Maintenance''\<rparr>,
    \<lparr>t_name = ''Michael Chen'', t_role = ''Community Volunteer'',
     t_content = ''As someone who organizes neighborhood cleanups, this platform has been invaluable. I can report multiple issues at once, track their progress, and even coordinate with other volunteers. Absolutely fantastic!'',
     t_rating = 5, t_avatar = ''https://images.pexels.com/photos/1222271/pexels-photo-1222271.jpeg?auto=compress&cs=tinysrgb&w=150&h=150&fit=crop'', t_location = ''Riverside Community'', t_issueType = ''Sanitation Services''\<rparr>,
    \<lparr>t_name = ''Emily Rodriguez'', t_role = ''Parent & Resident'',
     t_content = ''The broken streetlight near the school playground was a safety concern for months. Through PublicCare, it was reported, prioritized, and fixed within a week. My kids can now play safely after dark.'',
     t_rating = 5, t_avatar = ''https://images.pexels.com/photos/1239291/pexels-photo-1239291.jpeg?auto=compress&cs=tinysrgb&w=150&h=150&fit=crop'', t_location = ''Maple Heights'', t_issueType = ''Street Lighting''\<rparr>]"

definition governmentLogos :: "gov_logo list" where
  "governmentLogos = [
    \<lparr>logo_name = ''Department of Public Works'', logo = [0xF8FF, 0xFC, 0xE8, 0xF3, 0xD4, 0x220F, 0xE8],
     logo_description = ''Infrastructure & Maintenance''\<rparr>,
    \<lparr>logo_name = ''Water & Utilities Authority'', logo = [0xF8FF, 0xFC, 0xED, 0xDF],
     logo_description = ''Water & Sewer Services''\<rparr>,
    \<lparr>logo_name = ''Electric Power Company'', logo = [0x201A, 0xF6, 0xB0],
     logo_description = ''Electrical Infrastructure''\<rparr>,
    \<lparr>logo_name = ''Transportation Department'', logo = [0xF8FF, 0xFC, 0xF6, 0xE5],
     logo_description = ''Roads & Public Transit''\<rparr>,
    \<lparr>logo_name = ''Sanitation Services'', logo = [0xF8FF, 0xFC, 0xF3, 0xEB, 0xD4, 0x220F, 0xE8],
     logo_description = ''Waste Management''\<rparr>,
    \<lparr>logo_name = ''City Planning Office'', logo = [0xF8FF, 0xFC, 0xE8, 0xF5, 0xD4, 0x220F, 0xE8],
     logo_description = ''Urban Development''\<rparr>,
    \<lparr>logo_name = ''Emergency Services'', logo = [0xF8FF, 0xFC, 0xF6, 0xAE],
     logo_description = ''Public Safety''\<rparr>,
    \<lparr>logo_name = ''Parks & Recreation'', logo = [0xF8FF, 0xFC, 0xE5, 0x2265],
     logo_description = ''Green Spaces''\<rparr>,
    \<lparr>logo_name = ''Environmental Agency'', logo = [0xF8FF, 0xFC, 0xE5, 0xE7],
     logo_description = ''Environmental Protection''\<rparr>,
    \<lparr>logo_name = ''Housing Authority'', logo = [0xF8FF, 0xFC, 0xE8, 0x2020],
     logo_description = ''Public Housing''\<rparr>]"

definition processSteps :: "process_step list" where
  "processSteps = [
    \<lparr>step_icon = FileText, step_no = 1, step_title = ''Report the Issue'',
     step_description = ''Submit your complaint with photos, location, and detailed description using our intuitive form.'',
     step_features = [''Photo/Video Upload'', ''GPS Location'', ''Category Selection'', ''Priority Setting'']\<rparr>,
    \<lparr>step_icon = Target, step_no = 2, step_title = ''Automatic Routing'',
     step_description = ''Our system automatically routes your complaint to the appropriate department based on type and location.'',
     step_features = [''Smart Routing'', ''Department Assignment'', ''Priority Queue'', ''SLA Tracking'']\<rparr>,
    \<lparr>step_icon = Eye, step_no = 3, step_title = ''Track Progress'',
     step_description = ''Monitor real-time updates as authorities work to resolve your issue with full transparency.'',
     step_features = [''Live Updates'', ''Progress Photos'', ''Timeline View'', ''Communication Log'']\<rparr>,
    \<lparr>step_icon = CheckCircle, step_no = 4, step_title = ''Issue Resolved'',
     step_description = ''Receive confirmation with evidence and provide feedback on the resolution quality.'',
     step_features = [''Resolution Photos'', ''Quality Rating'', ''Feedback System'', ''Case Closure'']\<rparr>]"

text \<open>
  The partner logos are emoji in intent, but the source file holds them garbled: each
  literal is the Mac OS Roman reading of the UTF-8 bytes of an emoji (see
  \<open>Text_Encoding\<close>). \<open>intended_logos\<close> are the code points those bytes encode, in order
  \<open>U+1F3D7 U+FE0F\<close> (building construction), droplet, high voltage, bus, wastebasket,
  classical building, police light, deciduous tree, globe, house.
\<close>

definition intended_logos :: "nat list list" where
  "intended_logos = [
    [0x1F3D7, 0xFE0F],
    [0x1F4A7],
    [0x26A1],
    [0x1F68C],
    [0x1F5D1, 0xFE0F],
    [0x1F3DB, 0xFE0F],
    [0x1F6A8],
    [0x1F333],
    [0x1F30D],
    [0x1F3E0]]"

definition heroStats :: "home_stat list" where
  "heroStats = take 4 stats"

definition testimonialStars :: "testimonial \<Rightarrow> js_error + unit list" where
  "testimonialStars t = js_Array (t_rating t)"

definition logoMarquee :: "gov_logo list" where
  "logoMarquee = governmentLogos @ governmentLogos"

definition stepLayout :: "nat \<Rightarrow> string" where
  "stepLayout index = (if index mod 2 = 0 then ''lg:flex-row'' else ''lg:flex-row-reverse'')"

definition renderProcessSteps :: "process_step list \<Rightarrow> (int \<times> string) list" where
  "renderProcessSteps steps = map (\<lambda>(index, st). (step_no st, stepLayout index)) (enumerate 0 steps)"

section \<open>The invariant\<close>

text \<open>
  The invariant of the landing page: a listener is registered only after the effect ran
  (so the page is visible), and a listener that captured \<open>statsAnimated = true\<close> was
  registered after the animation started.
\<close>

definition listener_sound :: "home_state \<Rightarrow> bool" where
  "listener_sound st \<longleftrightarrow>
     (\<forall>c. scroll_listener st = Some c \<longrightarrow> (c \<longrightarrow> statsAnimated st) \<and> isVisible st) \<and>
     (statsAnimated st \<longrightarrow> isVisible st)"

section \<open>Lemmas\<close>

lemma home_step_animated_mono: "statsAnimated st \<Longrightarrow> statsAnimated (home_step e st)"
  by (cases e) (auto simp: home_effect_def handleScroll_def split: option.splits)

lemma listener_sound_step: "listener_sound st \<Longrightarrow> listener_sound (home_step e st)"
  by (cases e) (auto simp: listener_sound_def home_effect_def handleScroll_def split: option.splits)

lemma home_reachable_sound: "home_reachable st \<Longrightarrow> listener_sound st"
proof (induction rule: home_reachable.induct)
  case init
  show ?case by (simp add: listener_sound_def home_initial_def)
next
  case (step st e)
  from step.IH show ?case by (rule listener_sound_step)
qed

lemma home_run_Cons [simp]: "home_run (e # evs) st = home_run evs (home_step e st)"
  by (simp add: home_run_def)

lemma home_run_animated:
  assumes "listener_sound st"
  shows "statsAnimated (home_run evs st) \<longleftrightarrow>
           statsAnimated st \<or> stats_triggered (scroll_listener st \<noteq> None) evs"
  using assms
proof (induction evs arbitrary: st)
  case Nil
  then show ?case by (simp add: home_run_def)
next
  case (Cons e evs)
  have sound: "listener_sound (home_step e st)"
    using Cons.prems by (rule listener_sound_step)
  show ?case
  proof (cases e)
    case EffectRun
    with Cons.IH [OF sound] show ?thesis by (simp add: home_effect_def)
  next
    case (Scroll y h)
    with Cons.IH [OF sound] Cons.prems show ?thesis
      by (auto simp: handleScroll_def listener_sound_def split: option.splits)
  qed
qed

lemma home_reachable_run: "home_reachable st \<Longrightarrow> home_reachable (home_run evs st)"
  unfolding home_run_def
  by (induction evs arbitrary: st) (auto intro: home_reachable.step)

lemmas home_data = stats_def testimonials_def governmentLogos_def processSteps_def

section \<open>Properties\<close>

text \<open>
  C14. In every reachable state of the landing page the statistics are animated or a scroll
  listener is registered only once the page is visible, and once the animation has started
  no event stops it.
\<close>

theorem home_animation_invariant:
  assumes "home_reachable st"
  shows "(statsAnimated st \<longrightarrow> isVisible st) \<and> (scroll_listener st \<noteq> None \<longrightarrow> isVisible st) \<and>
         (\<forall>e. statsAnimated st \<longrightarrow> statsAnimated (home_step e st))"
  using home_reachable_sound [OF assms] home_step_animated_mono
  by (auto simp: listener_sound_def)

theorem home_animation_invariant_witness:
  "home_reachable (home_run [EffectRun, Scroll (Some 300) 800] home_initial) \<and>
   statsAnimated (home_run [EffectRun, Scroll (Some 300) 800] home_initial) \<and>
   isVisible (home_run [EffectRun, Scroll (Some 300) 800] home_initial) \<and>
   statsAnimated (home_step (Scroll (Some 2000) 800) (home_run [EffectRun, Scroll (Some 300) 800] home_initial))"
proof -
  let ?st = "home_run [EffectRun, Scroll (Some 300) 800] home_initial"
  have reach: "home_reachable ?st" by (rule home_reachable_run [OF home_reachable.init])
  have anim: "statsAnimated ?st"
    by (simp add: home_run_def home_effect_def handleScroll_def home_initial_def)
  show ?thesis using home_animation_invariant [OF reach] reach anim by blast
qed

text \<open>
  C15. The animation has started after a sequence of events exactly when some scroll event,
  after the effect first ran, found the statistics section with its top above the bottom of
  the window; a scroll before the effect, or with the section absent, does nothing.
\<close>

theorem home_animation_trigger:
  "statsAnimated (home_run evs home_initial) \<longleftrightarrow> stats_triggered False evs"
  using home_run_animated [of home_initial evs]
  by (simp add: listener_sound_def home_initial_def)

end
