(* ===== verification/Home_React.thy ===== *)
theory Home_React
  imports Home_Page "HOL-Library.While_Combinator"
begin

text \<open>
  How React runs the landing page's effect (\<open>HomePage.tsx\<close>, lines 47--62). The
  effect is declared with the dependency list \<open>[statsAnimated]\<close>: after each render React
  compares the current \<open>statsAnimated\<close> with the value of the last run and, when it
  differs (or on mount, when there was no run), runs the cleanup, which removes the old
  listener, and then the effect again. A \<open>home_fiber\<close> is the page state together with
  the dependency value of the last run; \<open>home_commit\<close> is the commit loop, a
  \<open>while_option\<close> that runs the effect while it is pending (the effect itself sets
  \<open>isVisible\<close>, which re-renders but does not change the dependency). A session is the
  mount followed by scroll events, each handled by the registered listener and followed by
  a commit. The lemmas show the loop stops after at most one run, that every state of a
  session is a state of the step relation \<open>home_reachable\<close> of \<open>Home_Page\<close>, and that
  the animation starts exactly when a scroll found the section in view.
\<close>

section \<open>The commit loop\<close>

type_synonym home_fiber = "home_state \<times> bool option"

definition effect_pending :: "home_fiber \<Rightarrow> bool" where
  "effect_pending f \<longleftrightarrow> snd f \<noteq> Some (statsAnimated (fst f))"

definition run_effect :: "home_fiber \<Rightarrow> home_fiber" where
  "run_effect f = (home_effect (fst f), Some (statsAnimated (fst f)))"

definition home_commit :: "home_fiber \<Rightarrow> home_fiber option" where
  "home_commit f = while_option effect_pending run_effect f"

definition home_mount :: "home_fiber option" where
  "home_mount = home_commit (home_initial, None)"

definition home_scroll :: "int option \<Rightarrow> int \<Rightarrow> home_fiber \<Rightarrow> home_fiber option" where
  "home_scroll y h f = home_commit (home_step (Scroll y h) (fst f), snd f)"

fun home_session :: "(int option \<times> int) list \<Rightarrow> home_fiber \<Rightarrow> home_fiber option" where
  "home_session [] f = Some f"
| "home_session ((y, h) # ss) f = Option.bind (home_scroll y h f) (home_session ss)"

definition scroll_events :: "(int option \<times> int) list \<Rightarrow> home_event list" where
  "scroll_events ss = map (\<lambda>(y, h). Scroll y h) ss"

definition committed :: "home_fiber \<Rightarrow> bool" where
  "committed f \<longleftrightarrow>
     snd f = Some (statsAnimated (fst f)) \<and> scroll_listener (fst f) = snd f \<and> isVisible (fst f)"

section \<open>Lemmas\<close>

lemma run_effect_settles: "\<not> effect_pending (run_effect f)"
  by (simp add: effect_pending_def run_effect_def home_effect_def)

lemma home_commit_eq:
  "home_commit f = Some (if effect_pending f then run_effect f else f)"
  unfolding home_commit_def
  by (subst while_option_unfold) (simp add: while_option_unfold [of _ _ "run_effect f"] run_effect_settles)

lemma home_mount_eq: "home_mount = Some (run_effect (home_initial, None))"
  by (simp add: home_mount_def home_commit_eq effect_pending_def)

lemma committed_mount: "committed (run_effect (home_initial, None))"
  by (simp add: committed_def run_effect_def home_effect_def home_initial_def)

lemma home_scroll_committed:
  assumes "committed f"
  shows "\<exists>f'. home_scroll y h f = Some f' \<and> committed f' \<and>
           (statsAnimated (fst f') \<longleftrightarrow>
              statsAnimated (fst f) \<or> (case y of None \<Rightarrow> False | Some t \<Rightarrow> t < h)) \<and>
           (\<exists>evs. fst f' = home_run evs (fst f))"
proof -
  let ?s = "home_step (Scroll y h) (fst f)"
  have run: "?s = home_run [Scroll y h] (fst f)" by (simp add: home_run_def)
  have anim: "statsAnimated ?s \<longleftrightarrow> statsAnimated (fst f) \<or> (case y of None \<Rightarrow> False | Some t \<Rightarrow> t < h)"
    using assms by (auto simp: committed_def handleScroll_def split: option.splits)
  show ?thesis
  proof (cases "effect_pending (?s, snd f)")
    case True
    let ?f' = "run_effect (?s, snd f)"
    have "home_scroll y h f = Some ?f'"
      using True by (simp add: home_scroll_def home_commit_eq)
    moreover have "committed ?f'"
      by (simp add: committed_def run_effect_def home_effect_def)
    moreover have "statsAnimated (fst ?f') \<longleftrightarrow> statsAnimated ?s"
      by (simp add: run_effect_def home_effect_def)
    moreover have "fst ?f' = home_run [Scroll y h, EffectRun] (fst f)"
      by (simp add: run_effect_def home_run_def)
    ultimately show ?thesis using anim by blast
  next
    case False
    have "home_scroll y h f = Some (?s, snd f)"
      using False by (simp add: home_scroll_def home_commit_eq)
    moreover have "committed (?s, snd f)"
      using False assms
      by (auto simp: committed_def effect_pending_def handleScroll_def split: option.splits)
    moreover note anim run
    ultimately show ?thesis by (intro exI [of _ "(?s, snd f)"]) (metis fst_conv)
  qed
qed

lemma home_session_committed:
  assumes "committed f"
  shows "\<exists>f'. home_session ss f = Some f' \<and> committed f' \<and>
           (statsAnimated (fst f') \<longleftrightarrow> statsAnimated (fst f) \<or> stats_triggered True (scroll_events ss)) \<and>
           (\<exists>evs. fst f' = home_run evs (fst f))"
  using assms
proof (induction ss arbitrary: f)
  case Nil
  then show ?case by (auto simp: scroll_events_def intro: exI [of _ "[]"] simp add: home_run_def)
next
  case (Cons p ss)
  obtain y h where p: "p = (y, h)" by fastforce
  obtain g where g: "home_scroll y h f = Some g" "committed g"
    "statsAnimated (fst g) \<longleftrightarrow> statsAnimated (fst f) \<or> (case y of None \<Rightarrow> False | Some t \<Rightarrow> t < h)"
    and gr: "\<exists>evs. fst g = home_run evs (fst f)"
    using home_scroll_committed [OF Cons.prems] by blast
  obtain f' where f': "home_session ss g = Some f'" "committed f'"
    "statsAnimated (fst f') \<longleftrightarrow> statsAnimated (fst g) \<or> stats_triggered True (scroll_events ss)"
    and fr: "\<exists>evs. fst f' = home_run evs (fst g)"
    using Cons.IH [OF g(2)] by blast
  from gr fr obtain e1 e2 where "fst g = home_run e1 (fst f)" "fst f' = home_run e2 (fst g)" by blast
  then have "fst f' = home_run (e1 @ e2) (fst f)" by (simp add: home_run_def)
  with g f' p show ?case by (auto simp: scroll_events_def)
qed

section \<open>Properties\<close>

text \<open>
  C20. The effect cannot loop: for every state and every dependency value, React's commit
  loop stops after at most one run of the effect, with no effect pending.
\<close>

theorem home_commit_bounded:
  "\<exists>n \<le> 1. home_commit f = Some ((run_effect ^^ n) f) \<and> \<not> effect_pending ((run_effect ^^ n) f)"
proof (cases "effect_pending f")
  case True
  then show ?thesis
    by (intro exI [of _ 1]) (simp add: home_commit_eq run_effect_settles)
next
  case False
  then show ?thesis by (intro exI [of _ 0]) (simp add: home_commit_eq)
qed

text \<open>
  C21. Every session runs to completion with the listener registered for the current
  value, and the statistics animation has started exactly when some scroll event found the
  top of the statistics section above the bottom of the window.
\<close>

theorem home_session_animates:
  "\<exists>f. Option.bind home_mount (home_session ss) = Some f \<and> committed f \<and>
       (statsAnimated (fst f) \<longleftrightarrow> stats_triggered True (scroll_events ss))"
proof -
  have "\<not> statsAnimated (fst (run_effect (home_initial, None)))"
    by (simp add: run_effect_def home_effect_def home_initial_def)
  then show ?thesis
    using home_session_committed [OF committed_mount, of ss] by (auto simp: home_mount_eq)
qed

end
