(* ===== verification/Home_Render.thy ===== *)
theory Home_Render
  imports Home_React
begin

text \<open>
  What the landing page renders from its state (\<open>HomePage.tsx\<close>, lines 64--149,
  232--237 and the JSX of lines 239--688). A rendered section is kept as the text it
  prints, the icons it shows (constructors of \<open>lucide_icon\<close>), its links, and the class
  names chosen by a condition: the hero's five blocks are revealed
  (\<open>isVisible ? 'animate-...' : 'opacity-0'\<close>), the statistics cards likewise with
  \<open>statsAnimated\<close>. Text outside ASCII is kept as code units (\<open>Text_Encoding\<close>). Fixed
  class names, the inline animation delays and the markup itself are left out. The
  testimonial cards go through \<open>Array(rating)\<close>, which throws \<open>RangeError\<close> on a
  negative length, so rendering the page is a value of \<open>js_error + home_view\<close>.
\<close>

section \<open>Data\<close>

record feature =
  f_icon :: lucide_icon
  f_title :: string
  f_description :: string
  f_color :: string
  f_highlights :: "string list"

record achievement =
  a_icon :: lucide_icon
  a_title :: string
  a_year :: string

record page_link = \<comment> \<open>a react-router \<open>Link\<close>: its text, its \<open>to\<close> and the icon it shows\<close>
  link_label :: string
  link_to :: string
  link_icon :: "lucide_icon option"

definition features :: "feature list" where
  "features = [
    \<lparr>f_icon = Smartphone, f_title = ''Mobile-First Design'',
     f_description = ''Report issues on-the-go with our responsive mobile interface. Take photos, add GPS location, and submit complaints instantly from anywhere.'',
     f_color = ''from-blue-500 to-cyan-500'',
     f_highlights = [''Responsive Design'', ''Touch Optimized'', ''Offline Support'', ''PWA Ready'']\<rparr>,
    \<lparr>f_icon = Camera, f_title = ''Visual Evidence'',
     f_description = ''Upload photos and videos to provide clear evidence of issues. Visual documentation speeds up resolution times and improves accuracy.'',
     f_color = ''from-purple-500 to-pink-500'',
     f_highlights = [''Photo Upload'', ''Video Support'', ''Before/After'', ''Auto Compression'']\<rparr>,
    \<lparr>f_icon = Bell, f_title = ''Real-time Notifications'',
     f_description = ''Get instant updates via push notifications, SMS, and email as your complaints progress through resolution stages.'',
     f_color = ''from-green-500 to-emerald-500'',
     f_highlights = [''Push Notifications'', ''SMS Alerts'', ''Email Updates'', ''Custom Preferences'']\<rparr>,
    \<lparr>f_icon = BarChart3, f_title = ''Advanced Analytics'',
     f_description = ''Track community trends, resolution times, and service quality with comprehensive analytics dashboards and detailed reports.'',
     f_color = ''from-orange-500 to-red-500'',
     f_highlights = [''Performance Metrics'', ''Trend Analysis'', ''Custom Reports'', ''Data Export'']\<rparr>,
    \<lparr>f_icon = MessageSquare, f_title = ''Two-way Communication'',
     f_description = ''Chat directly with service providers, ask questions, and provide additional information throughout the resolution process.'',
     f_color = ''from-indigo-500 to-purple-500'',
     f_highlights = [''Live Chat'', ''File Sharing'', ''Status Updates'', ''Provider Feedback'']\<rparr>,
    \<lparr>f_icon = Award, f_title = ''Quality Assurance'',
     f_description = ''Rate and review completed work. Your feedback helps maintain high service standards across all departments and providers.'',
     f_color = ''from-teal-500 to-blue-500'',
     f_highlights = [''5-Star Rating'', ''Written Reviews'', ''Photo Evidence'', ''Public Feedback'']\<rparr>,
    \<lparr>f_icon = MapPin, f_title = ''Smart Location Services'',
     f_description = ''Precise GPS tracking and intelligent address detection ensure your complaints are routed to the correct departments instantly.'',
     f_color = ''from-red-500 to-pink-500'',
     f_highlights = [''GPS Integration'', ''Address Validation'', ''Area Mapping'', ''Route Optimization'']\<rparr>,
    \<lparr>f_icon = Shield, f_title = ''Enterprise Security'',
     f_description = ''Bank-level encryption and security protocols protect your personal information and ensure data privacy at all times.'',
     f_color = ''from-gray-600 to-gray-800'',
     f_highlights = [''256-bit Encryption'', ''GDPR Compliant'', ''Secure Storage'', ''Privacy Controls'']\<rparr>,
    \<lparr>f_icon = Search, f_title = ''Intelligent Search'',
     f_description = ''Find similar issues, track complaint history, and discover community solutions with our powerful search and filtering system.'',
     f_color = ''from-yellow-500 to-orange-500'',
     f_highlights = [''Smart Filters'', ''Category Search'', ''History Tracking'', ''Similar Issues'']\<rparr>,
    \<lparr>f_icon = Layers, f_title = ''Multi-Department Integration'',
     f_description = ''Seamlessly coordinate between different government departments and service providers for complex, multi-faceted issues.'',
     f_color = ''from-blue-600 to-indigo-600'',
     f_highlights = [''Cross-Department'', ''Unified Workflow'', ''Shared Resources'', ''Coordinated Response'']\<rparr>,
    \<lparr>f_icon = Clock, f_title = ''SLA Monitoring'',
     f_description = ''Track service level agreements and response times to ensure departments meet their commitments to citizens.'',
     f_color = ''from-green-600 to-teal-600'',
     f_highlights = [''Response Tracking'', ''SLA Alerts'', ''Performance Metrics'', ''Accountability'']\<rparr>,
    \<lparr>f_icon = Headphones, f_title = ''24/7 Support'',
     f_description = ''Round-the-clock customer support through multiple channels including chat, phone, and email for urgent issues.'',
     f_color = ''from-purple-600 to-pink-600'',
     f_highlights = [''24/7 Availability'', ''Multi-Channel'', ''Emergency Support'', ''Expert Help'']\<rparr>]"

definition achievements :: "achievement list" where
  "achievements = [
    \<lparr>a_icon = Award, a_title = ''Excellence in Digital Government'', a_year = ''2024''\<rparr>,
    \<lparr>a_icon = Users, a_title = ''Community Choice Award'', a_year = ''2023''\<rparr>,
    \<lparr>a_icon = TrendingUp, a_title = ''Innovation in Public Service'', a_year = ''2023''\<rparr>,
    \<lparr>a_icon = Heart, a_title = ''Citizen Satisfaction Leader'', a_year = ''2024''\<rparr>]"

definition whyChoose :: "(lucide_icon \<times> string \<times> string \<times> string) list" where
  "whyChoose = [
    (Cloud, ''from-blue-500 to-cyan-500'', ''Cloud-Native'',
     ''Scalable, reliable infrastructure that grows with your community''),
    (Wifi, ''from-green-500 to-emerald-500'', ''Always Connected'',
     ''Real-time synchronization across all devices and platforms''),
    (Database, ''from-purple-500 to-pink-500'', ''Data-Driven'',
     ''Advanced analytics and insights to improve service delivery''),
    (Monitor, ''from-orange-500 to-red-500'', ''Multi-Platform'',
     ''Works seamlessly on web, mobile, and tablet devices'')]"

definition heroLinks :: "page_link list" where
  "heroLinks = [
     \<lparr>link_label = ''Get Started Free'', link_to = ''/signup'', link_icon = Some UserPlus\<rparr>,
     \<lparr>link_label = ''Sign In'', link_to = ''/login'', link_icon = Some ArrowRight\<rparr>]"

definition ctaLinks :: "page_link list" where
  "ctaLinks = [
     \<lparr>link_label = ''Create Free Account'', link_to = ''/signup'', link_icon = Some UserPlus\<rparr>,
     \<lparr>link_label = ''Sign In Now'', link_to = ''/login'', link_icon = Some ArrowRight\<rparr>]"

definition platformLinks :: "page_link list" where
  "platformLinks = [
     \<lparr>link_label = ''Get Started'', link_to = ''/signup'', link_icon = None\<rparr>,
     \<lparr>link_label = ''Features'', link_to = ''/features'', link_icon = None\<rparr>,
     \<lparr>link_label = ''Pricing'', link_to = ''/pricing'', link_icon = None\<rparr>,
     \<lparr>link_label = ''Mobile App'', link_to = ''/mobile'', link_icon = None\<rparr>]"

definition supportLinks :: "page_link list" where
  "supportLinks = [
     \<lparr>link_label = ''Help Center'', link_to = ''/help'', link_icon = None\<rparr>,
     \<lparr>link_label = ''Contact Us'', link_to = ''/contact'', link_icon = None\<rparr>,
     \<lparr>link_label = ''System Status'', link_to = ''/status'', link_icon = None\<rparr>,
     \<lparr>link_label = ''Community'', link_to = ''/community'', link_icon = None\<rparr>]"

definition legalLinks :: "page_link list" where
  "legalLinks = [
     \<lparr>link_label = ''Privacy Policy'', link_to = ''/privacy'', link_icon = None\<rparr>,
     \<lparr>link_label = ''Terms of Service'', link_to = ''/terms'', link_icon = None\<rparr>,
     \<lparr>link_label = ''Accessibility'', link_to = ''/accessibility'', link_icon = None\<rparr>]"

definition contactLines :: "(lucide_icon \<times> string) list" where
  "contactLines = [(Phone, ''+1 (555) 123-4567''), (Mail, ''support@publiccare.gov''), (Globe, ''www.publiccare.gov'')]"

text \<open>
  The line under the call to action. Like the partner logos, its check marks are garbled
  in the source: each \<open>U+2713\<close> is held as the three characters its UTF-8 bytes are in
  Mac OS Roman.
\<close>

definition ctaPerks :: "nat list" where
  "ctaPerks =
     [0x201A, 0xFA, 0xEC] @ map of_char '' Free to use  '' @ [0x201A, 0xFA, 0xEC] @ map of_char '' No credit card required  '' @ [0x201A, 0xFA, 0xEC] @ map of_char '' Instant access''"

definition intended_ctaPerks :: "nat list" where
  "intended_ctaPerks =
     [0x2713] @ map of_char '' Free to use  '' @ [0x2713] @ map of_char '' No credit card required  '' @ [0x2713] @ map of_char '' Instant access''"

section \<open>Sections\<close>

text \<open>The heading and the line under it that open a section.\<close>

definition partnersHeading :: "string \<times> string" where
  "partnersHeading = (''Trusted Government Partners'',
     ''Collaborating with leading institutions to serve you better'')"

definition statsHeading :: "string \<times> string" where
  "statsHeading = (''Impact by the Numbers'',
     ''Real results from real communities'')"

definition featuresHeading :: "string \<times> string" where
  "featuresHeading = (''Powerful Features for Everyone'',
     ''Our comprehensive platform provides everything you need to report, track, and resolve public service issues with unprecedented ease and transparency.'')"

definition stepsHeading :: "string \<times> string" where
  "stepsHeading = (''How It Works'',
     ''Four simple steps to transform your community'')"

definition testimonialsHeading :: "string \<times> string" where
  "testimonialsHeading = (''Success Stories'',
     ''Real people, real results, real impact'')"

definition awardsHeading :: "string \<times> string" where
  "awardsHeading = (''Awards & Recognition'',
     ''Recognized for excellence in digital government services'')"

definition revealClass :: "bool \<Rightarrow> string \<Rightarrow> string" where
  "revealClass shown anim = (if shown then anim else ''opacity-0'')"

record hero_view =
  hero_icon :: lucide_icon
  hero_title :: "string \<times> string" \<comment> \<open>the heading and its highlighted second line\<close>
  hero_text :: string
  hero_classes :: "string list"
  hero_links :: "page_link list"
  hero_preview :: "(string \<times> string \<times> string) list" \<comment> \<open>icon colour, number, label\<close>

definition renderHero :: "home_state \<Rightarrow> hero_view" where
  "renderHero st =
     \<lparr>hero_icon = FileText,
      hero_title = (''Transform Your'', ''Community Experience''),
      hero_text = ''Join over 25,000 citizens using our award-winning platform to report issues, track progress, and create positive change in their communities with unprecedented transparency and efficiency.'',
      hero_classes = map (revealClass (isVisible st))
        [''animate-fadeInUp'', ''animate-slideInLeft'', ''animate-slideInRight'', ''animate-fadeInUp'',
         ''animate-fadeInUp''],
      hero_links = heroLinks,
      hero_preview = map (\<lambda>s. (stat_color s, stat_number s, stat_label s)) heroStats\<rparr>"

definition statsSection :: "home_state \<Rightarrow> (string \<times> string \<times> string) list" where
  "statsSection st =
     map (\<lambda>s. (revealClass (statsAnimated st) ''animate-countUp'', stat_number s, stat_label s)) stats"

record feature_card =
  card_icon :: lucide_icon
  card_color :: string
  card_title :: string
  card_description :: string
  card_bullets :: "(string \<times> string) list" \<comment> \<open>bullet gradient, highlight\<close>

definition renderFeature :: "feature \<Rightarrow> feature_card" where
  "renderFeature f =
     \<lparr>card_icon = f_icon f, card_color = f_color f, card_title = f_title f,
      card_description = f_description f, card_bullets = map (\<lambda>h. (f_color f, h)) (f_highlights f)\<rparr>"

record testimonial_card =
  tc_avatar :: string
  tc_name :: string
  tc_role :: string
  tc_location :: string
  tc_stars :: "unit list"
  tc_quote :: string
  tc_issue :: string

definition renderTestimonial :: "testimonial \<Rightarrow> js_error + testimonial_card" where
  "renderTestimonial t =
     (case testimonialStars t of
        Inl e \<Rightarrow> Inl e
      | Inr stars \<Rightarrow> Inr
          \<lparr>tc_avatar = t_avatar t, tc_name = t_name t, tc_role = t_role t,
           tc_location = t_location t, tc_stars = stars,
           tc_quote = [CHR 0x22] @ t_content t @ [CHR 0x22],
           tc_issue = ''Issue Type: '' @ t_issueType t\<rparr>)"

text \<open>\<open>xs.map(f)\<close> where \<open>f\<close> may throw: the first exception escapes.\<close>

fun js_map_throwing :: "('a \<Rightarrow> 'e + 'b) \<Rightarrow> 'a list \<Rightarrow> 'e + 'b list" where
  "js_map_throwing f [] = Inr []"
| "js_map_throwing f (x # xs) =
     (case f x of
        Inl e \<Rightarrow> Inl e
      | Inr y \<Rightarrow> (case js_map_throwing f xs of Inl e \<Rightarrow> Inl e | Inr ys \<Rightarrow> Inr (y # ys)))"

definition renderAwards :: "(lucide_icon \<times> string \<times> string) list" where
  "renderAwards = map (\<lambda>a. (a_icon a, a_title a, a_year a)) achievements"

record cta_view =
  cta_heading :: string
  cta_text :: string
  cta_buttons :: "page_link list"
  cta_perks :: "nat list"

definition renderCTA :: cta_view where
  "renderCTA =
     \<lparr>cta_heading = ''Ready to Transform Your Community?'',
      cta_text = ''Join thousands of citizens who are already making a difference with PublicCare. Your voice matters, and together we can build better communities.'',
      cta_buttons = ctaLinks,
      cta_perks = ctaPerks\<rparr>"

record social_button = \<comment> \<open>a round button of the footer: its text and the target it links to\<close>
  sb_label :: string
  sb_target :: "string option"

record footer_view =
  footer_logo :: lucide_icon
  footer_brand :: string
  footer_blurb :: string
  social_buttons :: "social_button list"
  footer_groups :: "(string \<times> page_link list) list"
  footer_contact :: "(lucide_icon \<times> string) list"
  footer_copyright :: "nat list"
  footer_legal :: "page_link list"

text \<open>
  The footer. The three social buttons are \<open>div\<close>s with no link and no handler, so their
  target is \<open>None\<close>; the copyright line starts with the entity \<open>&copy;\<close>, the code unit
  \<open>0xA9\<close>.
\<close>

definition renderFooter :: footer_view where
  "renderFooter =
     \<lparr>footer_logo = FileText,
      footer_brand = ''PublicCare'',
      footer_blurb = ''Empowering communities through transparent and efficient public service management. Building bridges between citizens and government for a better tomorrow.'',
      social_buttons = map (\<lambda>l. \<lparr>sb_label = l, sb_target = None\<rparr>) [''f'', ''t'', ''in''],
      footer_groups = [(''Platform'', platformLinks), (''Support'', supportLinks)],
      footer_contact = contactLines,
      footer_copyright = [0xA9] @ map of_char '' 2024 PublicCare. All rights reserved. Built for the people, by the people.'',
      footer_legal = legalLinks\<rparr>"

record home_view =
  hero :: hero_view
  headings :: "(string \<times> string) list" \<comment> \<open>of the sections after the hero, in order\<close>
  partner_cards :: "(nat list \<times> string \<times> string) list"
  stats_cards :: "(string \<times> string \<times> string) list"
  feature_cards :: "feature_card list"
  why_items :: "(lucide_icon \<times> string \<times> string \<times> string) list"
  step_rows :: "(int \<times> string) list"
  testimonial_cards :: "testimonial_card list"
  award_items :: "(lucide_icon \<times> string \<times> string) list"
  cta :: cta_view
  footer :: footer_view

definition homeView :: "home_state \<Rightarrow> js_error + home_view" where
  "homeView st =
     (case js_map_throwing renderTestimonial testimonials of
        Inl e \<Rightarrow> Inl e
      | Inr cards \<Rightarrow> Inr
          \<lparr>hero = renderHero st,
           headings = [partnersHeading, statsHeading, featuresHeading, stepsHeading,
                       testimonialsHeading, awardsHeading],
           partner_cards = map (\<lambda>l. (logo l, logo_name l, logo_description l)) logoMarquee,
           stats_cards = statsSection st,
           feature_cards = map renderFeature features,
           why_items = whyChoose,
           step_rows = renderProcessSteps processSteps,
           testimonial_cards = cards,
           award_items = renderAwards,
           cta = renderCTA,
           footer = renderFooter\<rparr>)"

section \<open>Lemmas\<close>

lemma js_map_throwing_Inr:
  "(\<forall>x \<in> set xs. \<exists>y. f x = Inr y) \<Longrightarrow> js_map_throwing f xs = Inr (map (\<lambda>x. projr (f x)) xs)"
  by (induction xs) auto

lemma renderTestimonial_Inr:
  "0 \<le> t_rating t \<Longrightarrow> t_rating t < 2 ^ 32 \<Longrightarrow> \<exists>c. renderTestimonial t = Inr c"
  by (simp add: renderTestimonial_def testimonialStars_def js_Array_def)

lemma renderTestimonial_cases:
  "renderTestimonial t =
     (if 0 \<le> t_rating t \<and> t_rating t < 2 ^ 32
      then Inr (projr (renderTestimonial t)) else Inl RangeError) \<and>
   (0 \<le> t_rating t \<and> t_rating t < 2 ^ 32 \<longrightarrow>
      length (tc_stars (projr (renderTestimonial t))) = nat (t_rating t))"
  by (simp add: renderTestimonial_def testimonialStars_def js_Array_def)

lemma homeView_Inr: "\<exists>v. homeView st = Inr v"
proof -
  have "\<forall>t \<in> set testimonials. \<exists>c. renderTestimonial t = Inr c"
    by (auto intro: renderTestimonial_Inr simp: testimonials_def)
  then show ?thesis
    by (simp add: homeView_def js_map_throwing_Inr)
qed

lemma footer_social_buttons_inert:
  "map sb_label (social_buttons renderFooter) = [''f'', ''t'', ''in''] \<and>
   list_all (\<lambda>b. sb_target b = None) (social_buttons renderFooter)"
  by (simp add: renderFooter_def)

lemmas mojibake_eval = mojibake_def utf8_encode_def mac_roman_decode_def mac_roman_table_def

text \<open>
  The partner logos and the check marks of the call to action are garbled in the source
  file: each literal is the mojibake of the emoji or check mark it was written as, and
  that text can be recovered from it.
\<close>

lemma partner_logos_garbled:
  "map logo governmentLogos = map mojibake intended_logos \<and>
   map (\<lambda>l. recover_text (logo l)) governmentLogos = map Some intended_logos"
proof -
  have g: "map logo governmentLogos = map mojibake intended_logos"
    by (simp add: governmentLogos_def intended_logos_def mojibake_eval)
  have gen: "\<And>xss. list_all (list_all (\<lambda>c. c < 0x110000)) xss \<Longrightarrow>
      map recover_text (map mojibake xss) = map Some xss"
  proof -
    fix xss :: "nat list list"
    show "list_all (list_all (\<lambda>c. c < 0x110000)) xss \<Longrightarrow> map recover_text (map mojibake xss) = map Some xss"
      by (induction xss) (simp_all add: recover_mojibake)
  qed
  have "map (\<lambda>l. recover_text (logo l)) governmentLogos = map recover_text (map logo governmentLogos)"
    by simp
  also have "\<dots> = map recover_text (map mojibake intended_logos)"
    by (simp only: g)
  also have "\<dots> = map Some intended_logos"
    by (rule gen) (simp add: intended_logos_def)
  finally show ?thesis using g by simp
qed

lemma cta_perks_garbled:
  "ctaPerks = mojibake intended_ctaPerks \<and> recover_text ctaPerks = Some intended_ctaPerks"
proof -
  have p: "ctaPerks = mojibake intended_ctaPerks"
    by (simp add: ctaPerks_def intended_ctaPerks_def mojibake_eval)
  have "recover_text (mojibake intended_ctaPerks) = Some intended_ctaPerks"
    by (rule recover_mojibake) (simp add: intended_ctaPerks_def)
  with p show ?thesis by simp
qed

lemma homeView_fields:
  "homeView st = Inr v \<Longrightarrow> hero v = renderHero st \<and> stats_cards v = statsSection st"
  by (auto simp: homeView_def split: sum.splits)

section \<open>Properties\<close>

text \<open>
  C22. In every reachable state the landing page renders without an exception, and it
  never shows a statistics card animating while a block of the hero is still hidden: a
  card with \<open>animate-countUp\<close> implies that none of the hero's blocks has
  \<open>opacity-0\<close>.
\<close>

theorem home_view_reveal:
  assumes "home_reachable st"
  shows "\<exists>v. homeView st = Inr v \<and>
           (list_ex (\<lambda>(c, _). c = ''animate-countUp'') (stats_cards v) \<longrightarrow>
              list_all (\<lambda>c. c \<noteq> ''opacity-0'') (hero_classes (hero v)))"
proof -
  obtain v where v: "homeView st = Inr v" using homeView_Inr by blast
  have "statsAnimated st \<longrightarrow> isVisible st"
    using home_reachable_sound [OF assms] by (simp add: listener_sound_def)
  then have "list_ex (\<lambda>(c, _). c = ''animate-countUp'') (statsSection st) \<longrightarrow>
               list_all (\<lambda>c. c \<noteq> ''opacity-0'') (hero_classes (renderHero st))"
    by (auto simp: statsSection_def renderHero_def revealClass_def stats_def)
  with v show ?thesis using homeView_fields [OF v] by auto
qed

text \<open>
  C16. \<open>[...Array(rating)]\<close> inside \<open>testimonials.map\<close>: for any list of testimonials,
  rendering the section either throws \<open>RangeError\<close>, exactly when some rating is not a
  valid array length (negative, or \<open>2^32\<close> or more), or gives one card per testimonial
  showing as many stars as its rating. The page's three testimonials are rated 5.
\<close>

theorem testimonial_stars:
  "(case js_map_throwing renderTestimonial ts of
      Inl e \<Rightarrow> e = RangeError \<and> \<not> list_all (\<lambda>t. 0 \<le> t_rating t \<and> t_rating t < 2 ^ 32) ts
    | Inr cards \<Rightarrow> list_all (\<lambda>t. 0 \<le> t_rating t \<and> t_rating t < 2 ^ 32) ts \<and>
        map (\<lambda>c. length (tc_stars c)) cards = map (\<lambda>t. nat (t_rating t)) ts) \<and>
   map (\<lambda>t. nat (t_rating t)) testimonials = [5, 5, 5]"
proof (rule conjI)
  show "map (\<lambda>t. nat (t_rating t)) testimonials = [5, 5, 5]"
    by (simp add: testimonials_def)
  show "case js_map_throwing renderTestimonial ts of
      Inl e \<Rightarrow> e = RangeError \<and> \<not> list_all (\<lambda>t. 0 \<le> t_rating t \<and> t_rating t < 2 ^ 32) ts
    | Inr cards \<Rightarrow> list_all (\<lambda>t. 0 \<le> t_rating t \<and> t_rating t < 2 ^ 32) ts \<and>
        map (\<lambda>c. length (tc_stars c)) cards = map (\<lambda>t. nat (t_rating t)) ts"
  proof (induction ts)
    case Nil
    then show ?case by simp
  next
    case (Cons t ts)
    from renderTestimonial_cases [of t] Cons.IH show ?case
      by (auto split: if_splits sum.splits)
  qed
qed

theorem home_view_reveal_witness:
  "home_reachable (home_run [EffectRun, Scroll (Some 300) 800] home_initial) \<and>
   list_all (\<lambda>c. c \<noteq> ''opacity-0'')
     (hero_classes (renderHero (home_run [EffectRun, Scroll (Some 300) 800] home_initial)))"
proof -
  let ?st = "home_run [EffectRun, Scroll (Some 300) 800] home_initial"
  have reach: "home_reachable ?st" by (rule home_reachable_run [OF home_reachable.init])
  obtain v where v: "homeView ?st = Inr v"
    and imp: "list_ex (\<lambda>(c, _). c = ''animate-countUp'') (stats_cards v) \<longrightarrow>
       list_all (\<lambda>c. c \<noteq> ''opacity-0'') (hero_classes (hero v))"
    using home_view_reveal [OF reach] by blast
  have "list_ex (\<lambda>(c, _). c = ''animate-countUp'') (statsSection ?st)"
    by (simp add: statsSection_def stats_def revealClass_def home_run_def home_effect_def
        handleScroll_def home_initial_def)
  with imp homeView_fields [OF v] reach show ?thesis by simp
qed

end
