(* ===== verification/Spec2Isabelle.thy ===== *)
theory Spec2Isabelle
  imports Community_View Home_Render
begin

text \<open>
  \<^bold>\<open>A verification library for the PublicCare citizen portal pages.\<close>

  \<^bold>\<open>The program.\<close> Two React pages are in the sources. The community page
  (\<open>src/gggg/project/src/pages/citizen/CommunityPage.tsx\<close>) holds the logic the spec
  calls the complaint--review engine: a review repository (\<open>generateReviews\<close>), an
  eligibility resolver (\<open>userResolvedComplaints\<close>), a write-review form whose submit
  handler (\<open>handleWriteReview\<close>) and photo handler (\<open>handlePhotoUpload\<close>) change the page
  state, an aggregation (\<open>communityStats\<close>) and a filter/sort pipeline
  (\<open>filteredReviews\<close>, \<open>sortedReviews\<close>) that feeds the rendered list. The components
  interact through the page state (the \<open>useState\<close> variables) and through the values
  recomputed on each render: the repository feeds the resolver, the statistics and the
  pipeline; the resolver decides whether the "Write a Review" button is rendered and which
  complaints the form offers. The landing page (\<open>src/gggg/project/src/pages/HomePage.tsx\<close>)
  is static content plus a scroll effect that starts an animation.

  \<^bold>\<open>The theories.\<close>
  \<^item> \<open>JS_Prelude\<close>: the ECMAScript built-ins the pages call (\<open>toLowerCase\<close>,
    \<open>trim\<close>, \<open>includes\<close> through the StringIndexOf loop, \<open>Array.prototype.sort\<close> as a
    stable insertion sort, \<open>new Set\<close>, \<open>Array(n)\<close> with its RangeError, division with
    \<open>NaN\<close>, \<open>new Date('YYYY-MM-DD')\<close>), with their equivalence to library references
    (\<open>includes\<close> is \<open>Sublist.sublist\<close>; the sort with a difference comparator is
    \<open>sort_key\<close> of the negated key). Strings are modelled on ASCII: Unicode case mapping and
    non-ASCII white space are not.
  \<^item> \<open>Text_Encoding\<close>: text outside ASCII as UTF-16 code units, UTF-8
    (\<open>utf8_encode\<close>, \<open>utf8_decode\<close>, with their round trip) and the Mac OS Roman byte
    table; \<open>mojibake\<close> is a text whose UTF-8 bytes were read as Mac OS Roman, and
    \<open>recover_mojibake\<close> shows it can always be undone.
  \<^item> \<open>Review_Model\<close>: the \<open>Review\<close> interface (\<open>review\<close>), the complaint fields read
    from the complaint context (modelled from the spec, the context is not in the sources),
    \<open>generateReviews\<close> with its five fixed reviews.
  \<^item> \<open>Eligibility\<close>: \<open>userResolvedComplaints\<close> (lines 151--155), with the signed-out
    user as \<open>None\<close>, and the spec's contract \<open>eligible_for\<close>.
  \<^item> \<open>Query\<close>: the four filter controls as the record \<open>review_query\<close>, the three
    predicates, \<open>filteredReviews\<close>, the \<open>switch\<close> comparator \<open>review_compare\<close> and
    \<open>sortedReviews\<close> (lines 157--180). The declared type of \<open>sortBy\<close> is the
    datatype \<open>sort_order\<close>, an instance of \<open>enum\<close>, with the key of each member.
  \<^item> \<open>Stats\<close>: \<open>communityStats\<close> (lines 233--238), the mean as a JavaScript division.
  \<^item> \<open>Write_Review\<close>: the page state (\<open>page_state\<close> extends \<open>review_query\<close> with the
    modal flag, the selected complaint, the draft and the console output \<open>posted\<close>), every
    handler of the page as a definition, \<open>dispatch\<close> routing each user event to its handler
    when the element is rendered and enabled, \<open>page_run\<close> over event lists and the reachable
    states \<open>page_reachable\<close>. The spec's validator of section 4.2 is
    \<open>validate_submission\<close>, with the error datatype \<open>validation_error\<close>.
  \<^item> \<open>Render\<close>: \<open>renderStars\<close>, the review cards and the empty-list message
    (lines 212--231, 497--596).
  \<^item> \<open>Community_View\<close>: the community page as a whole (\<open>communityView\<close>): heading,
    statistics cards, the button, the modal while open (\<open>renderModal\<close>, lines 311--437,
    with the complaint options labelled "title - address" and the photo counter), filter
    bar and list; in every reachable state the modal is consistent with the invariant
    (\<open>communityView_modal_consistent\<close>).
  \<^item> \<open>Home_Page\<close>: the landing page's state, its scroll effect as a step function
    (\<open>home_step\<close>, with the listener's captured value), its reachable states, and the data
    the page renders with logic (testimonial stars, the logo marquee, the step layout), with
    the imported icons as the datatype \<open>lucide_icon\<close> (lines 3--41).
  \<^item> \<open>Home_React\<close>: how React schedules that effect. Its dependency list
    \<open>[statsAnimated]\<close> (line 62) makes it re-run after every render that changed
    \<open>statsAnimated\<close>; \<open>home_commit\<close> is that commit loop, a \<open>while_option\<close> over the
    state and the dependency value of the last run, and \<open>home_session\<close> is the mount
    followed by scroll events, each handled and then committed.
  \<^item> \<open>Home_Render\<close>: the landing page's sections as rendered from the state
    (\<open>homeView\<close>): the hero with its \<open>isVisible\<close> class choices and call-to-action
    links, the statistics section with its \<open>statsAnimated\<close> class choice, the feature cards,
    the "Why choose" block, the steps, the testimonial cards (which can throw through
    \<open>Array(n)\<close>), the awards, the call to action and the footer (links, contact lines,
    social buttons), with each section's heading and icons. The partner logos and the
    call to action's check marks are garbled in the source file: the lemmas
    \<open>partner_logos_garbled\<close> and \<open>cta_perks_garbled\<close> show each is the mojibake of
    the intended emoji or check mark.

  \<^bold>\<open>What the lemmas show.\<close> The page state machine keeps an invariant (\<open>page_inv\<close>)
  in all reachable states; with it, every posted review passes the spec's validator (C1),
  the Post button refines the validator (C2), the draft stays in range (C3, C4), and
  posting stays possible from every state, for the same complaint again too (C19). The
  pipeline is a stable sort of the filtered reviews (C5), the default controls keep every
  review, newest first (C6), and search ignores letter case (C7). The resolver meets its
  contract (C8, C9); the statistics meet theirs, with \<open>NaN\<close> for no review (C10), the mean
  stays in \<open>[1, 5]\<close> (C11), and the Average Rating card prints it within 0.05 (C18). The
  star row and the list rendering are characterised (C12, C13), and with no filter the list
  shows as many cards as the statistics count (C17). On the landing page the animation
  never runs under a hidden page and, once started, stays on (C14); it starts exactly when
  a scroll finds the section in view, both for arbitrary event sequences (C15) and for the
  sessions React schedules (C21), whose commit loop stops after one run of the effect
  (C20). The testimonial section throws \<open>RangeError\<close> exactly for invalid ratings (C16),
  and the rendered page never shows the statistics animating under a hidden hero (C22).
  Although the sort select casts its value with \<open>as any\<close>, \<open>sortBy\<close> always inhabits its
  declared union type (C23).

  \<^bold>\<open>Bounds and fuel.\<close> No loop of the pages can run forever: every loop is a
  recursion over a list, except the StringIndexOf search, a \<open>function\<close> whose measure is
  the number of positions left, and React's commit loop, a \<open>while_option\<close> proved to
  return after at most one iteration because the effect does not change its own
  dependency. No fuel is used. JavaScript numbers are \<open>int\<close> (ratings,
  vote counts, timestamps and pixel offsets are integers far below \<open>2^53\<close>) and \<open>real\<close>
  for the mean rating. The mean is exact, not the IEEE double JavaScript computes, and
  \<open>js_toFixed1\<close> rounds the exact value: at a tie such as \<open>87/20\<close> the double is just
  below \<open>4.35\<close> and JavaScript prints \<open>4.3\<close> where the model prints \<open>4.4\<close>. C18 is
  about the model's card; JavaScript's card differs from it only at such ties, where it is
  also exactly 0.05 from the mean.

  \<^bold>\<open>Not modelled.\<close> The complaint store and authentication (context providers outside
  the sources: only the fields the page reads), routing (the targets of the links are
  kept, the router is not in the sources), the drawing of the icons, CSS classes and
  animation timing (including the inline \<open>animationDelay\<close> values, computed in floating
  point), React's rendering itself beyond "handlers change state, values are recomputed from it" and the
  effect scheduling of \<open>Home_React\<close>.

  \<^bold>\<open>Plan.\<close> Modelled in this order: the write-review state machine, the filter/sort
  pipeline, the resolver, the statistics and their cards, the repository, the rendering,
  the landing page's effect, its React scheduling and its sections, the declared type of
  \<open>sortBy\<close>, the landing page's footer and the community page's modal and whole view,
  the landing page's icons, headings and non-ASCII text. Nothing of the two pages' logic
  or content is left out beyond what "Not modelled" lists.
  The vote buttons need no operation: they have no handler in the source, so the counters
  a card prints (\<open>review_card\<close>) never change.
\<close>

section \<open>Properties that span components\<close>

text \<open>
  C17. With no filter active the review list shows as many cards as the "Total Reviews"
  statistic counts, and the invitation to write the first review exactly when there is none.
\<close>

theorem default_list_matches_total:
  assumes "searchTerm q = []" and "categoryFilter q = ''all''" and "ratingFilter q = ''all''"
  shows "(case renderReviewList q rs of Cards cs \<Rightarrow> length cs | NoReviews m \<Rightarrow> 0) =
           totalReviews (communityStats rs) \<and>
         (renderReviewList q rs =
            NoReviews ''Be the first to share your experience with the community!'' \<longleftrightarrow> rs = [])"
proof -
  have "filteredReviews q rs = rs" using assms by (simp add: filteredReviews_def)
  then have len: "length (sortedReviews q rs) = length rs" by (simp add: sortedReviews_sort_key)
  have msg: "emptyListMessage q = ''Be the first to share your experience with the community!''"
    using assms by (simp add: emptyListMessage_def)
  show ?thesis
    using len msg by (auto simp: renderReviewList_def communityStats_def)
qed

theorem default_list_matches_total_witness:
  "(case renderReviewList initial_query (page_reviews scenario_ctx) of
      Cards cs \<Rightarrow> length cs | NoReviews m \<Rightarrow> 0) = 5"
proof -
  have "(case renderReviewList initial_query (page_reviews scenario_ctx) of
           Cards cs \<Rightarrow> length cs | NoReviews m \<Rightarrow> 0) =
        totalReviews (communityStats (page_reviews scenario_ctx))"
    using default_list_matches_total [of initial_query "page_reviews scenario_ctx"]
    by (simp add: initial_query_def)
  then show ?thesis
    by (simp add: communityStats_def page_reviews_def generateReviews_def mockReviews_def)
qed

text \<open>
  C23. \<open>sortBy\<close> is declared with the union type \<open>'recent' | 'rating' | 'helpful'\<close>, but
  its select stores \<open>e.target.value as any\<close>, so the type checker does not enforce it.
  The page keeps it anyway: in every reachable state \<open>sortBy\<close> is the literal of a member
  of the union, and the list is sorted by that member's key, larger first.
\<close>

theorem sortBy_inhabits_union:
  assumes "page_reachable ctx st"
  shows "\<exists>k. sortBy st = sort_order_name k \<and>
           sortedReviews st rs = sort_key (\<lambda>r. - sort_order_key k r) (filteredReviews st rs)"
proof -
  have "sortBy st \<in> set sortOptions"
    using page_reachable_inv [OF assms] by (simp add: page_inv_def)
  then have "sortBy st = sort_order_name Recent \<or> sortBy st = sort_order_name ByRating \<or>
             sortBy st = sort_order_name ByHelpful"
    by (simp add: sortOptions_def)
  then obtain k where k: "sortBy st = sort_order_name k" by blast
  then have "sortedReviews st rs = sort_key (\<lambda>r. - sort_order_key k r) (filteredReviews st rs)"
    by (simp add: sortedReviews_sort_key review_sort_key_order)
  with k show ?thesis by blast
qed

theorem sortBy_inhabits_union_witness:
  "page_reachable scenario_ctx (page_run scenario_ctx [SortSelect ''helpful''] (initial_page_state :: nat page_state)) \<and>
   sortedReviews (page_run scenario_ctx [SortSelect ''helpful''] (initial_page_state :: nat page_state)) mockReviews =
     sort_key (\<lambda>r. - helpful r)
       (filteredReviews (page_run scenario_ctx [SortSelect ''helpful''] (initial_page_state :: nat page_state)) mockReviews)"
proof -
  let ?st = "page_run scenario_ctx [SortSelect ''helpful''] (initial_page_state :: nat page_state)"
  have reach: "page_reachable scenario_ctx ?st"
    by (rule page_reachable_run [OF page_reachable.init])
  obtain k where k: "sortBy ?st = sort_order_name k"
    and sorted: "sortedReviews ?st mockReviews = sort_key (\<lambda>r. - sort_order_key k r) (filteredReviews ?st mockReviews)"
    using sortBy_inhabits_union [OF reach, of mockReviews] by blast
  have "sortBy ?st = sort_order_name ByHelpful"
    by (simp add: page_run_def sortOptions_def initial_page_state_def)
  with k have "sort_order_name k = sort_order_name ByHelpful" by simp
  then have "k = ByHelpful" by (simp only: sort_order_name_inj)
  with sorted reach show ?thesis by simp
qed

end
